theory Spec2Isabelle
  imports Main "HOL-Library.Word"
begin

unbundle bit_operations_syntax

section \<open>The benchmark harness of libnnbenchmark (run\_tflite.cpp)\<close>

text \<open>
  A shallow embedding of \<^verbatim>\<open>src/libnnbenchmark/run_tflite.cpp\<close>: the error metric
  \<^verbatim>\<open>getOutputError\<close>, the input path \<^verbatim>\<open>setInput\<close>, the tracing set-up
  \<^verbatim>\<open>setupTraceFunc\<close> and the benchmark loop \<^verbatim>\<open>BenchmarkModel::benchmark\<close>.

  The TensorFlow Lite interpreter, the dynamic loader, the system clock and the build
  (whether \<^verbatim>\<open>NDEBUG\<close> is defined, how wide \<^verbatim>\<open>long\<close> is) are not settled by the
  file; they enter the model as parameters. Log output is not modelled.
\<close>

subsection \<open>The C++ type \<^verbatim>\<open>float\<close>: IEEE-754 binary32\<close>

text \<open>
  Every finite binary32 number is an integer multiple of \<open>2 ^ -149\<close>, the smallest
  subnormal. \<open>Finite s m\<close> is the number \<open>(-1) ^ s * m * 2 ^ -149\<close> (\<open>s\<close> is the sign
  bit, so \<open>Finite True 0\<close> is \<open>-0.0\<close>); all NaNs are one value. Arithmetic is computed
  exactly on these integers and rounded once, to nearest with ties to even, as the default
  rounding mode does; each C++ operator is one rounded operation (a product and a sum are
  not contracted into one fused operation).
\<close>

datatype f32 = Finite bool nat | Infinity bool | NaN

fun bit_length :: "nat \<Rightarrow> nat" where
  "bit_length n = (if n = 0 then 0 else Suc (bit_length (n div 2)))"

declare bit_length.simps [simp del]

text \<open>\<open>p / q\<close> rounded to the nearest integer, a tie to the even one.\<close>

definition round_nearest_even :: "nat \<Rightarrow> nat \<Rightarrow> nat" where
  "round_nearest_even p q =
     (let m = p div q; r = p mod q
      in if q < 2 * r \<or> (2 * r = q \<and> odd m) then m + 1 else m)"

text \<open>
  \<open>round_f32 s p q\<close> is the binary32 nearest to \<open>(-1) ^ s * (p / q) * 2 ^ -149\<close>. Below
  \<open>2 ^ 24\<close> units the spacing of binary32 numbers is one unit (subnormals and the first
  normal binade); above, a number of bit length \<open>n\<close> keeps its 24 leading bits, so the
  spacing is \<open>2 ^ (n - 24)\<close> units. A rounded magnitude of \<open>2 ^ 128\<close> (\<open>2 ^ 277\<close> units) or
  more overflows to infinity.
\<close>

definition round_f32 :: "bool \<Rightarrow> nat \<Rightarrow> nat \<Rightarrow> f32" where
  "round_f32 s p q =
     (let e = bit_length (p div q) - 24;
          m = round_nearest_even p (q * 2 ^ e) * 2 ^ e
      in if 2 ^ 277 \<le> m then Infinity s else Finite s m)"

definition signed_units :: "bool \<Rightarrow> nat \<Rightarrow> int" where
  "signed_units s m = (if s then - int m else int m)"

definition fzero :: f32 where
  "fzero = Finite False 0"

fun fneg :: "f32 \<Rightarrow> f32" where
  "fneg (Finite s m) = Finite (\<not> s) m"
| "fneg (Infinity s) = Infinity (\<not> s)"
| "fneg NaN = NaN"

fun fadd :: "f32 \<Rightarrow> f32 \<Rightarrow> f32" where
  "fadd NaN _ = NaN"
| "fadd _ NaN = NaN"
| "fadd (Infinity s) (Infinity t) = (if s = t then Infinity s else NaN)"
| "fadd (Infinity s) (Finite _ _) = Infinity s"
| "fadd (Finite _ _) (Infinity t) = Infinity t"
| "fadd (Finite s m) (Finite t n) =
     (let v = signed_units s m + signed_units t n
      in if v = 0 then Finite (s \<and> t) 0 else round_f32 (v < 0) (nat \<bar>v\<bar>) 1)"

definition fsub :: "f32 \<Rightarrow> f32 \<Rightarrow> f32" where
  "fsub a b = fadd a (fneg b)"

fun fmul :: "f32 \<Rightarrow> f32 \<Rightarrow> f32" where
  "fmul NaN _ = NaN"
| "fmul _ NaN = NaN"
| "fmul (Infinity s) (Infinity t) = Infinity (s \<noteq> t)"
| "fmul (Infinity s) (Finite t n) = (if n = 0 then NaN else Infinity (s \<noteq> t))"
| "fmul (Finite s m) (Infinity t) = (if m = 0 then NaN else Infinity (s \<noteq> t))"
| "fmul (Finite s m) (Finite t n) = round_f32 (s \<noteq> t) (m * n) (2 ^ 149)"

fun fdiv :: "f32 \<Rightarrow> f32 \<Rightarrow> f32" where
  "fdiv NaN _ = NaN"
| "fdiv _ NaN = NaN"
| "fdiv (Infinity s) (Infinity t) = NaN"
| "fdiv (Infinity s) (Finite t n) = Infinity (s \<noteq> t)"
| "fdiv (Finite s m) (Infinity t) = Finite (s \<noteq> t) 0"
| "fdiv (Finite s m) (Finite t n) =
     (if n = 0 then (if m = 0 then NaN else Infinity (s \<noteq> t))
      else round_f32 (s \<noteq> t) (m * 2 ^ 149) n)"

text \<open>The comparison \<open>a > b\<close>: false as soon as one side is a NaN; \<open>-0.0\<close> equals \<open>0.0\<close>.\<close>

fun fgt :: "f32 \<Rightarrow> f32 \<Rightarrow> bool" where
  "fgt NaN _ = False"
| "fgt _ NaN = False"
| "fgt (Infinity s) (Infinity t) = (\<not> s \<and> t)"
| "fgt (Infinity s) (Finite _ _) = (\<not> s)"
| "fgt (Finite _ _) (Infinity t) = t"
| "fgt (Finite s m) (Finite t n) = (signed_units t n < signed_units s m)"

text \<open>Conversion of an integer (\<^verbatim>\<open>uint8_t\<close>, \<^verbatim>\<open>size_t\<close>, \<^verbatim>\<open>long long\<close>) to \<^verbatim>\<open>float\<close>.\<close>

definition f32_of_int :: "int \<Rightarrow> f32" where
  "f32_of_int i = (if i = 0 then fzero else round_f32 (i < 0) (nat \<bar>i\<bar> * 2 ^ 149) 1)"

text \<open>
  Four bytes of memory read as a \<^verbatim>\<open>float\<close> (little-endian, as on every Android ABI):
  sign bit, 8 exponent bits, 23 fraction bits.
\<close>

definition f32_of_bytes :: "8 word \<Rightarrow> 8 word \<Rightarrow> 8 word \<Rightarrow> 8 word \<Rightarrow> f32" where
  "f32_of_bytes b0 b1 b2 b3 =
     (let w = unat b0 + 2 ^ 8 * unat b1 + 2 ^ 16 * unat b2 + 2 ^ 24 * unat b3;
          s = (w div 2 ^ 31 = 1);
          e = (w div 2 ^ 23) mod 2 ^ 8;
          f = w mod 2 ^ 23
      in if e = 255 then (if f = 0 then Infinity s else NaN)
         else if e = 0 then Finite s f
         else Finite s ((2 ^ 23 + f) * 2 ^ (e - 1)))"

fun floats_of_bytes :: "8 word list \<Rightarrow> f32 list" where
  "floats_of_bytes (b0 # b1 # b2 # b3 # bs) = f32_of_bytes b0 b1 b2 b3 # floats_of_bytes bs"
| "floats_of_bytes _ = []"

subsection \<open>Tensors, results and errors\<close>

text \<open>The element types of \<^verbatim>\<open>TfLiteType\<close> (TensorFlow Lite's C API).\<close>

datatype TfLiteType =
  kTfLiteNoType | kTfLiteFloat32 | kTfLiteInt32 | kTfLiteUInt8 | kTfLiteInt64
  | kTfLiteString | kTfLiteBool | kTfLiteInt16 | kTfLiteComplex64

datatype TfLiteStatus = kTfLiteOk | kTfLiteError

text \<open>
  A \<^verbatim>\<open>TfLiteTensor\<close>: its element type and its buffer \<^verbatim>\<open>data.raw\<close>; the field
  \<^verbatim>\<open>bytes\<close> is the length of the buffer.
\<close>

record tensor =
  type :: TfLiteType
  raw :: "8 word list"

definition bytes :: "tensor \<Rightarrow> nat" where
  "bytes t = length (raw t)"

text \<open>
  Two ways a call does not return. A failed \<^verbatim>\<open>assert\<close> aborts the process. Undefined
  behaviour of C++ (a call through a null function pointer, a read or a write past the
  end of a buffer, a remainder by zero) is where the model stops: nothing is said about
  what the process does from there on.
\<close>

datatype fatal =
  UnableToOpenLibandroid | WrongSizeOfOutputTensor | OutputTensorTypeNotSupported
  | InputOutputVectorIsEmpty

datatype undefined_behaviour =
  NullFunctionPointerCall | OutOfBoundsRead | BufferOverrun | RemainderByZero

datatype error = AssertionFailed fatal | Undefined undefined_behaviour

definition and_then :: "error + 'a \<Rightarrow> ('a \<Rightarrow> error + 'b) \<Rightarrow> error + 'b" where
  "and_then r f = (case r of Inl e \<Rightarrow> Inl e | Inr x \<Rightarrow> f x)"

text \<open>
  The macro \<^verbatim>\<open>FATAL(...)\<close> logs and then evaluates \<^verbatim>\<open>assert(false)\<close>. Nothing else
  follows it in the macro: where \<^verbatim>\<open>NDEBUG\<close> is defined \<^verbatim>\<open>assert\<close> expands to nothing,
  and execution goes on with the statement after \<^verbatim>\<open>FATAL\<close>. Whether the build defines
  \<^verbatim>\<open>NDEBUG\<close> is the first argument (\<open>ndebug\<close>).
\<close>

definition FATAL :: "bool \<Rightarrow> fatal \<Rightarrow> error + unit" where
  "FATAL ndebug message = (if ndebug then Inr () else Inl (AssertionFailed message))"

record InferenceResult =
  computeTimeSec :: f32
  meanSquareError :: f32
  maxSingleError :: f32
  inferenceOutput :: "8 word list"
  inputOutputSequenceIndex :: int
  inputOutputIndex :: int

subsection \<open>\<^verbatim>\<open>BenchmarkModel::getOutputError\<close>\<close>

text \<open>
  The two \<^verbatim>\<open>for\<close> statements of \<^verbatim>\<open>getOutputError\<close> have the same body; they differ in
  how the elements are read. The recursion runs over the pairs
  \<open>(output_raw[i], expected[i])\<close> and carries \<open>(max_error, err_sum)\<close>.
\<close>

fun error_loop :: "(f32 \<times> f32) list \<Rightarrow> f32 \<times> f32 \<Rightarrow> f32 \<times> f32" where
  "error_loop [] acc = acc"
| "error_loop ((out, expected) # rest) (max_error, err_sum) =
     (let err = fsub out expected
      in error_loop rest
           (if fgt err max_error then err else max_error, fadd err_sum (fmul err err)))"

definition f32_of_uint8 :: "8 word \<Rightarrow> f32" where
  "f32_of_uint8 b = f32_of_int (uint b)"

text \<open>
  The switch yields \<open>(elements_count, max_error, err_sum)\<close>. Each \<^verbatim>\<open>for\<close> statement
  runs over the elements of the output tensor and reads as many elements of
  \<^verbatim>\<open>expected_data\<close>; after a \<^verbatim>\<open>FATAL\<close> that returned, the expected data may be
  shorter than that, and the read past its end is undefined. The \<^verbatim>\<open>default\<close> branch
  leaves the three variables at their initial zeros.
\<close>

definition getOutputError ::
  "bool \<Rightarrow> tensor \<Rightarrow> 8 word list \<Rightarrow> InferenceResult \<Rightarrow> error + InferenceResult" where
  "getOutputError ndebug output_tensor expected_data result =
     and_then (if bytes output_tensor \<noteq> length expected_data
               then FATAL ndebug WrongSizeOfOutputTensor else Inr ()) (\<lambda>_.
     and_then
       (case type output_tensor of
          kTfLiteUInt8 \<Rightarrow>
            if length expected_data < bytes output_tensor then Inl (Undefined OutOfBoundsRead)
            else Inr (bytes output_tensor,
                      error_loop (zip (map f32_of_uint8 (raw output_tensor))
                                      (map f32_of_uint8 expected_data)) (fzero, fzero))
        | kTfLiteFloat32 \<Rightarrow>
            if length expected_data < 4 * (bytes output_tensor div 4)
            then Inl (Undefined OutOfBoundsRead)
            else Inr (bytes output_tensor div 4,
                      error_loop (zip (floats_of_bytes (raw output_tensor))
                                      (floats_of_bytes expected_data)) (fzero, fzero))
        | _ \<Rightarrow>
            and_then (FATAL ndebug OutputTensorTypeNotSupported) (\<lambda>_. Inr (0, fzero, fzero)))
       (\<lambda>(elements_count, max_error, err_sum).
          Inr (result\<lparr>meanSquareError := fdiv err_sum (f32_of_int (int elements_count)),
                      maxSingleError := max_error\<rparr>)))"

subsection \<open>The interpreter, the clock and the input/output data\<close>

text \<open>
  Of the interpreter \<^verbatim>\<open>mTfliteInterpreter\<close> the file touches the first input tensor
  (\<^verbatim>\<open>tensor(inputs()[0])\<close>), the first output tensor (\<^verbatim>\<open>tensor(outputs()[0])\<close>) and,
  through \<^verbatim>\<open>Invoke\<close> and \<^verbatim>\<open>ResetVariableTensorsToZero\<close>, the rest of the graph, which
  stays abstract (\<open>'g\<close>).
\<close>

record 'g Interpreter =
  input_tensor :: tensor
  output_tensor :: tensor
  graph :: 'g

text \<open>
  \<^verbatim>\<open>struct timeval\<close>: both fields have the type \<^verbatim>\<open>long\<close>, which is \<open>64 word\<close> on the
  64-bit ABIs and \<open>32 word\<close> on the 32-bit ones; the record leaves the type open
  (\<open>'long\<close>), the functions below take it as \<open>'w word\<close>.
\<close>

record 'long timeval =
  tv_sec :: 'long
  tv_usec :: 'long

text \<open>
  What the build, the library and the system do is a parameter of the model: whether
  \<^verbatim>\<open>NDEBUG\<close> is defined, the two interpreter calls as functions on the interpreter's
  state, and \<open>gettimeofday k\<close> for what the \<open>k\<close>-th reading of the clock returns.
\<close>

record ('g, 'long) platform =
  NDEBUG :: bool
  Invoke :: "'g Interpreter \<Rightarrow> TfLiteStatus \<times> 'g Interpreter"
  ResetVariableTensorsToZero :: "'g Interpreter \<Rightarrow> TfLiteStatus \<times> 'g Interpreter"
  gettimeofday :: "nat \<Rightarrow> 'long timeval"

text \<open>
  \<^verbatim>\<open>InferenceInOut\<close> (declared in run\_tflite.h, read off its uses here): a buffer and
  its size field are one byte list, a null \<^verbatim>\<open>input\<close> is \<open>None\<close>; the member
  \<^verbatim>\<open>output\<close> is \<open>output_data\<close> here. The callback
  \<^verbatim>\<open>createInput(buffer, capacity)\<close> is given the buffer's contents and returns its
  verdict and the bytes it wrote from the start of the buffer.
\<close>

record InferenceInOut =
  input :: "8 word list option"
  createInput :: "8 word list \<Rightarrow> bool \<times> 8 word list"
  output_data :: "8 word list"

type_synonym InferenceInOutSequence = "InferenceInOut list"

text \<open>
  Modelled from the spec: the header run\_tflite.h with the two flag constants is not
  part of the sources; the flags are "a bitmask with two independent toggles", taken
  here as the two lowest bits.
\<close>

definition FLAG_DISCARD_INFERENCE_OUTPUT :: "32 word" where
  "FLAG_DISCARD_INFERENCE_OUTPUT = 1"

definition FLAG_IGNORE_GOLDEN_OUTPUT :: "32 word" where
  "FLAG_IGNORE_GOLDEN_OUTPUT = 2"

text \<open>
  The state the benchmark works on: the interpreter, the number of clock readings made so
  far, the caller's vector \<^verbatim>\<open>*results\<close> and the local \<^verbatim>\<open>inferenceTotal\<close>.
\<close>

record 'g state =
  mTfliteInterpreter :: "'g Interpreter"
  clock_reads :: nat
  results :: "InferenceResult list"
  inferenceTotal :: f32

subsection \<open>Tracing: \<^verbatim>\<open>setupTraceFunc\<close> and \<^verbatim>\<open>kTraceFunc\<close>\<close>

text \<open>
  The dynamic loader: \<open>dlopen\<close> maps the name of a library to the symbols it exports, or
  to \<open>None\<close> when \<^verbatim>\<open>dlopen\<close> returns null; \<open>default_symbols\<close> are the symbols
  \<^verbatim>\<open>dlsym\<close> finds when it is handed a null handle (none where it rejects the handle).
  \<^verbatim>\<open>dlsym\<close> returns null for a symbol it does not find. What the tracing functions do
  when called is outside the model; a call through a function pointer matters only by
  whether the pointer is null.
\<close>

record loader =
  dlopen :: "string \<Rightarrow> string list option"
  default_symbols :: "string list"

datatype fn_ptr = nullptr | Symbol string

record TraceFunc =
  ATrace_beginSection :: fn_ptr
  ATrace_endSection :: fn_ptr

definition dlsym :: "loader \<Rightarrow> string list option \<Rightarrow> string \<Rightarrow> fn_ptr" where
  "dlsym ld lib name =
     (let symbols = (case lib of None \<Rightarrow> default_symbols ld | Some exported \<Rightarrow> exported)
      in if name \<in> set symbols then Symbol name else nullptr)"

definition setupTraceFunc :: "bool \<Rightarrow> loader \<Rightarrow> error + TraceFunc" where
  "setupTraceFunc ndebug ld =
     (let lib = dlopen ld ''libandroid.so''
      in and_then (if lib = None then FATAL ndebug UnableToOpenLibandroid else Inr ()) (\<lambda>_.
           Inr \<lparr>ATrace_beginSection = dlsym ld lib ''ATrace_beginSection'',
                ATrace_endSection = dlsym ld lib ''ATrace_endSection''\<rparr>))"

fun call :: "fn_ptr \<Rightarrow> error + unit" where
  "call nullptr = Inl (Undefined NullFunctionPointerCall)"
| "call (Symbol _) = Inr ()"

subsection \<open>The methods of \<^verbatim>\<open>BenchmarkModel\<close> used by the benchmark\<close>

text \<open>
  \<^verbatim>\<open>memcpy(raw, dataPtr, length)\<close> into a tensor's buffer: the first \<open>length\<close> bytes are
  replaced. A copy longer than the buffer writes past its end.
\<close>

definition memcpy :: "8 word list \<Rightarrow> 8 word list \<Rightarrow> error + 8 word list" where
  "memcpy dst src =
     (if length src \<le> length dst then Inr (src @ drop (length src) dst)
      else Inl (Undefined BufferOverrun))"

definition setInput :: "'g Interpreter \<Rightarrow> 8 word list \<Rightarrow> error + bool \<times> 'g Interpreter" where
  "setInput interp dataPtr =
     (let tensor = input_tensor interp;
          copy = and_then (memcpy (raw tensor) dataPtr) (\<lambda>copied.
                   Inr (True, interp\<lparr>input_tensor := tensor\<lparr>raw := copied\<rparr>\<rparr>))
      in case type tensor of
           kTfLiteFloat32 \<Rightarrow> copy
         | kTfLiteUInt8 \<Rightarrow> copy
         | _ \<Rightarrow> Inr (False, interp))"

definition saveInferenceOutput :: "'g Interpreter \<Rightarrow> InferenceResult \<Rightarrow> InferenceResult" where
  "saveInferenceOutput interp result =
     result\<lparr>inferenceOutput := inferenceOutput result @ raw (output_tensor interp)\<rparr>"

definition runInference :: "('g, 'long) platform \<Rightarrow> 'g Interpreter \<Rightarrow> bool \<times> 'g Interpreter" where
  "runInference env interp =
     (let (status, interp') = Invoke env interp in (status = kTfLiteOk, interp'))"

definition resetStates :: "('g, 'long) platform \<Rightarrow> 'g Interpreter \<Rightarrow> bool \<times> 'g Interpreter" where
  "resetStates env interp =
     (let (status, interp') = ResetVariableTensorsToZero env interp
      in (status = kTfLiteOk, interp'))"

text \<open>
  \<^verbatim>\<open>currentTimeInUsec\<close>: the sum \<^verbatim>\<open>tv_sec * 1000000L + tv_usec\<close> is computed in
  \<^verbatim>\<open>long\<close> and returned as \<^verbatim>\<open>long long\<close>. Where the signed arithmetic overflows
  (with a 32-bit \<^verbatim>\<open>long\<close>) the value is taken to be the one the machine computes, the
  result modulo \<open>2 ^ w\<close>; the general statements below hold for every clock, and the
  examples stay far from an overflow.
\<close>

definition currentTimeInUsec ::
  "('g, 'w::len word) platform \<Rightarrow> 'g state \<Rightarrow> 64 word \<times> 'g state" where
  "currentTimeInUsec env st =
     (let tv = gettimeofday env (clock_reads st)
      in (scast (tv_sec tv * 1000000 + tv_usec tv), st\<lparr>clock_reads := Suc (clock_reads st)\<rparr>))"

subsection \<open>\<^verbatim>\<open>BenchmarkModel::benchmark\<close>\<close>

text \<open>
  The body of the inner \<^verbatim>\<open>for\<close> statement, entry \<open>i\<close> of the selected sequence, in
  three parts. First the input: the raw bytes through \<^verbatim>\<open>setInput\<close>, whose result is
  dropped, or else the callback \<^verbatim>\<open>createInput\<close> on the input tensor's buffer; \<open>False\<close>
  is the \<^verbatim>\<open>return false\<close> after "Input creation failed".
\<close>

definition provide_input ::
  "InferenceInOut \<Rightarrow> 'g Interpreter \<Rightarrow> error + bool \<times> 'g Interpreter" where
  "provide_input data interp =
     (case input data of
        Some dataPtr \<Rightarrow>
          and_then (setInput interp dataPtr) (\<lambda>(_, interp). Inr (True, interp))
      | None \<Rightarrow>
          (let tensor = input_tensor interp;
               (created, written) = createInput data (raw tensor)
           in and_then (memcpy (raw tensor) written) (\<lambda>filled.
                Inr (created, interp\<lparr>input_tensor := tensor\<lparr>raw := filled\<rparr>\<rparr>))))"

text \<open>
  Last the result record: built with zeroed error fields and an empty output, filled by
  \<^verbatim>\<open>getOutputError\<close> and \<^verbatim>\<open>saveInferenceOutput\<close> as the flags say, pushed onto
  \<^verbatim>\<open>*results\<close>, and the time added to \<^verbatim>\<open>inferenceTotal\<close>. (\<open>sequenceIndex\<close> is the
  local \<^verbatim>\<open>inputOutputSequenceIndex\<close>.)
\<close>

definition record_result ::
  "bool \<Rightarrow> 32 word \<Rightarrow> nat \<Rightarrow> nat \<Rightarrow> InferenceInOut \<Rightarrow> f32 \<Rightarrow> 'g state \<Rightarrow> error + 'g state" where
  "record_result ndebug flags sequenceIndex i data inferenceTime st =
     (let result = \<lparr>computeTimeSec = inferenceTime, meanSquareError = fzero,
                    maxSingleError = fzero, inferenceOutput = [],
                    inputOutputSequenceIndex = int sequenceIndex,
                    inputOutputIndex = int i\<rparr>
      in and_then
           (if flags AND FLAG_IGNORE_GOLDEN_OUTPUT = 0
            then getOutputError ndebug (output_tensor (mTfliteInterpreter st))
                   (output_data data) result
            else Inr result)
           (\<lambda>result.
              let result = (if flags AND FLAG_DISCARD_INFERENCE_OUTPUT = 0
                            then saveInferenceOutput (mTfliteInterpreter st) result
                            else result)
              in Inr (st\<lparr>results := results st @ [result],
                         inferenceTotal := fadd (inferenceTotal st) inferenceTime\<rparr>)))"

text \<open>
  The whole body, with the tracing calls and the two clock readings around
  \<^verbatim>\<open>runInference\<close>. The result \<open>Inr (False, st)\<close> is a \<^verbatim>\<open>return false\<close>,
  \<open>Inr (True, st)\<close> the end of the body.
\<close>

definition benchmark_entry ::
  "('g, 'w::len word) platform \<Rightarrow> TraceFunc \<Rightarrow> 32 word \<Rightarrow> nat \<Rightarrow> nat \<Rightarrow> InferenceInOut
     \<Rightarrow> 'g state \<Rightarrow> error + bool \<times> 'g state" where
  "benchmark_entry env kTraceFunc flags sequenceIndex i data st =
     and_then (call (ATrace_beginSection kTraceFunc)) (\<lambda>_.
     and_then (call (ATrace_beginSection kTraceFunc)) (\<lambda>_.
     and_then (provide_input data (mTfliteInterpreter st)) (\<lambda>(created, interp).
       let st = st\<lparr>mTfliteInterpreter := interp\<rparr>
       in if \<not> created then Inr (False, st)
          else
     and_then (call (ATrace_endSection kTraceFunc)) (\<lambda>_.
       let (startTime, st) = currentTimeInUsec env st;
           (success, interp) = runInference env (mTfliteInterpreter st);
           st = st\<lparr>mTfliteInterpreter := interp\<rparr>
       in
     and_then (call (ATrace_endSection kTraceFunc)) (\<lambda>_.
       let (endTime, st) = currentTimeInUsec env st
       in if \<not> success then Inr (False, st)
          else
            let inferenceTime =
                  fdiv (f32_of_int (sint (endTime - startTime))) (f32_of_int 1000000)
            in and_then (record_result (NDEBUG env) flags sequenceIndex i data inferenceTime st)
                 (\<lambda>st. Inr (True, st)))))))"

text \<open>The inner \<^verbatim>\<open>for (int i = 0; i < seq.size(); ++i)\<close>, from index \<open>i\<close> on.\<close>

function benchmark_sequence ::
  "('g, 'w::len word) platform \<Rightarrow> TraceFunc \<Rightarrow> 32 word \<Rightarrow> nat \<Rightarrow> InferenceInOutSequence \<Rightarrow> nat
     \<Rightarrow> 'g state \<Rightarrow> error + bool \<times> 'g state" where
  "benchmark_sequence env kTraceFunc flags sequenceIndex seq i st =
     (if i < length seq
      then case benchmark_entry env kTraceFunc flags sequenceIndex i (seq ! i) st of
             Inl e \<Rightarrow> Inl e
           | Inr (False, st') \<Rightarrow> Inr (False, st')
           | Inr (True, st') \<Rightarrow>
               benchmark_sequence env kTraceFunc flags sequenceIndex seq (Suc i) st'
      else Inr (True, st))"
  by pat_completeness auto
termination
  by (relation "measure (\<lambda>(env, kTraceFunc, flags, idx, seq, i, st). length seq - i)") auto

declare benchmark_sequence.simps [simp del]

text \<open>
  The outer
  \<^verbatim>\<open>for (int seqInferenceIndex = 0; seqInferenceIndex < seqInferencesMaxCount; ++seqInferenceIndex)\<close>,
  from \<open>seqInferenceIndex\<close> on. The result of \<^verbatim>\<open>resetStates()\<close> is dropped. The
  remainder \<^verbatim>\<open>seqInferenceIndex % inOutData.size()\<close> is undefined for an empty vector,
  which the statement is reached with only after a \<^verbatim>\<open>FATAL\<close> that returned.
\<close>

function benchmark_loop ::
  "('g, 'w::len word) platform \<Rightarrow> TraceFunc \<Rightarrow> InferenceInOutSequence list \<Rightarrow> int \<Rightarrow> f32 \<Rightarrow> 32 word
     \<Rightarrow> nat \<Rightarrow> 'g state \<Rightarrow> error + bool \<times> 'g state" where
  "benchmark_loop env kTraceFunc inOutData seqInferencesMaxCount timeout flags
       seqInferenceIndex st =
     (if int seqInferenceIndex < seqInferencesMaxCount
      then
        let st = st\<lparr>mTfliteInterpreter := snd (resetStates env (mTfliteInterpreter st))\<rparr>
        in if inOutData = [] then Inl (Undefined RemainderByZero)
           else
             let sequenceIndex = seqInferenceIndex mod length inOutData;
                 seq = inOutData ! sequenceIndex
             in case benchmark_sequence env kTraceFunc flags sequenceIndex seq 0 st of
                  Inl e \<Rightarrow> Inl e
                | Inr (False, st') \<Rightarrow> Inr (False, st')
                | Inr (True, st') \<Rightarrow>
                    if fgt (inferenceTotal st') timeout then Inr (True, st')
                    else benchmark_loop env kTraceFunc inOutData seqInferencesMaxCount timeout
                           flags (Suc seqInferenceIndex) st'
      else Inr (True, st))"
  by pat_completeness auto
termination
  by (relation "measure (\<lambda>(env, kTraceFunc, inOutData, seqInferencesMaxCount, timeout, flags,
                            seqInferenceIndex, st).
                          nat (seqInferencesMaxCount - int seqInferenceIndex))") auto

declare benchmark_loop.simps [simp del]

definition benchmark ::
  "('g, 'w::len word) platform \<Rightarrow> TraceFunc \<Rightarrow> InferenceInOutSequence list \<Rightarrow> int \<Rightarrow> f32 \<Rightarrow> 32 word
     \<Rightarrow> 'g state \<Rightarrow> error + bool \<times> 'g state" where
  "benchmark env kTraceFunc inOutData seqInferencesMaxCount timeout flags st =
     and_then (if inOutData = [] then FATAL (NDEBUG env) InputOutputVectorIsEmpty else Inr ())
       (\<lambda>_. benchmark_loop env kTraceFunc inOutData seqInferencesMaxCount timeout flags 0
               (st\<lparr>inferenceTotal := fzero\<rparr>))"

subsection \<open>Auxiliary notions for the statements\<close>

abbreviation uint8_tensor :: "8 word list \<Rightarrow> tensor" where
  "uint8_tensor bs \<equiv> \<lparr>type = kTfLiteUInt8, raw = bs\<rparr>"

abbreviation float32_tensor :: "8 word list \<Rightarrow> tensor" where
  "float32_tensor bs \<equiv> \<lparr>type = kTfLiteFloat32, raw = bs\<rparr>"

abbreviation tag :: "InferenceResult \<Rightarrow> int \<times> int" where
  "tag r \<equiv> (inputOutputSequenceIndex r, inputOutputIndex r)"

abbreviation reset :: "('g, 'long) platform \<Rightarrow> 'g state \<Rightarrow> 'g state" where
  "reset env st \<equiv> st\<lparr>mTfliteInterpreter := snd (resetStates env (mTfliteInterpreter st))\<rparr>"

text \<open>
  The entries a run goes through, as pairs (index of the sequence, index of the entry):
  those of outer step \<open>k\<close>, and those of the steps \<open>k, \<dots>, m - 1\<close> in order.
\<close>

definition step_entries :: "InferenceInOutSequence list \<Rightarrow> nat \<Rightarrow> (nat \<times> nat) list" where
  "step_entries inOutData k =
     (let s = k mod length inOutData in map (\<lambda>i. (s, i)) [0..<length (inOutData ! s)])"

definition visited :: "InferenceInOutSequence list \<Rightarrow> nat \<Rightarrow> nat \<Rightarrow> (nat \<times> nat) list" where
  "visited inOutData k m = concat (map (step_entries inOutData) [k..<m])"

text \<open>The results a call has appended to \<^verbatim>\<open>*results\<close>.\<close>

definition appended :: "'g state \<Rightarrow> 'g state \<Rightarrow> InferenceResult list" where
  "appended st st' = drop (length (results st)) (results st')"

subsection \<open>Concrete platforms and inputs for the examples\<close>

text \<open>
  A platform whose inference always succeeds and whose clock stands still, one whose
  clock advances by a second with every reading, and one whose inference fails on the
  input byte 2; each for a build with or without \<^verbatim>\<open>NDEBUG\<close>, on a 64-bit ABI.
\<close>

definition idle_platform :: "bool \<Rightarrow> (unit, 64 word) platform" where
  "idle_platform ndebug =
     \<lparr>NDEBUG = ndebug,
      Invoke = (\<lambda>interp. (kTfLiteOk, interp)),
      ResetVariableTensorsToZero = (\<lambda>interp. (kTfLiteOk, interp)),
      gettimeofday = (\<lambda>k. \<lparr>tv_sec = 0, tv_usec = 0\<rparr>)\<rparr>"

definition ticking_platform :: "bool \<Rightarrow> (unit, 64 word) platform" where
  "ticking_platform ndebug =
     \<lparr>NDEBUG = ndebug,
      Invoke = (\<lambda>interp. (kTfLiteOk, interp)),
      ResetVariableTensorsToZero = (\<lambda>interp. (kTfLiteOk, interp)),
      gettimeofday = (\<lambda>k. \<lparr>tv_sec = of_nat k, tv_usec = 0\<rparr>)\<rparr>"

definition picky_platform :: "bool \<Rightarrow> (unit, 64 word) platform" where
  "picky_platform ndebug =
     \<lparr>NDEBUG = ndebug,
      Invoke = (\<lambda>interp. (if raw (input_tensor interp) = [2] then kTfLiteError else kTfLiteOk,
                            interp)),
      ResetVariableTensorsToZero = (\<lambda>interp. (kTfLiteOk, interp)),
      gettimeofday = (\<lambda>k. \<lparr>tv_sec = 0, tv_usec = 0\<rparr>)\<rparr>"

definition loader_without_libandroid :: loader where
  "loader_without_libandroid = \<lparr>dlopen = (\<lambda>name. None), default_symbols = []\<rparr>"

definition loader_without_symbols :: loader where
  "loader_without_symbols =
     \<lparr>dlopen = (\<lambda>name. if name = ''libandroid.so'' then Some [] else None),
      default_symbols = []\<rparr>"

definition loader_with_tracing :: loader where
  "loader_with_tracing =
     \<lparr>dlopen = (\<lambda>name. if name = ''libandroid.so''
                       then Some [''ATrace_beginSection'', ''ATrace_endSection''] else None),
      default_symbols = []\<rparr>"

definition resolved_tracing :: TraceFunc where
  "resolved_tracing =
     \<lparr>ATrace_beginSection = Symbol ''ATrace_beginSection'',
      ATrace_endSection = Symbol ''ATrace_endSection''\<rparr>"

definition unresolved_tracing :: TraceFunc where
  "unresolved_tracing = \<lparr>ATrace_beginSection = nullptr, ATrace_endSection = nullptr\<rparr>"

text \<open>
  An interpreter with one-byte tensors of type \<^verbatim>\<open>kTfLiteUInt8\<close>, the output holding
  the byte 9, and one whose input tensor holds a 32-bit integer; no results yet.
\<close>

definition byte_state :: "unit state" where
  "byte_state =
     \<lparr>mTfliteInterpreter =
        \<lparr>input_tensor = uint8_tensor [0], output_tensor = uint8_tensor [9], graph = ()\<rparr>,
      clock_reads = 0, results = [], inferenceTotal = fzero\<rparr>"

definition int32_state :: "unit state" where
  "int32_state =
     \<lparr>mTfliteInterpreter =
        \<lparr>input_tensor = \<lparr>type = kTfLiteInt32, raw = [0, 0, 0, 0]\<rparr>,
         output_tensor = uint8_tensor [9], graph = ()\<rparr>,
      clock_reads = 0, results = [], inferenceTotal = fzero\<rparr>"

text \<open>
  An entry with the raw input byte \<open>b\<close> and the expected output byte \<open>e\<close>, and an entry
  whose input comes from a callback that writes nothing and returns \<open>ok\<close>.
\<close>

definition raw_entry :: "8 word \<Rightarrow> 8 word \<Rightarrow> InferenceInOut" where
  "raw_entry b e = \<lparr>input = Some [b], createInput = (\<lambda>buffer. (False, [])), output_data = [e]\<rparr>"

definition callback_entry :: "bool \<Rightarrow> InferenceInOut" where
  "callback_entry ok = \<lparr>input = None, createInput = (\<lambda>buffer. (ok, [])), output_data = [0]\<rparr>"

definition blank_result :: InferenceResult where
  "blank_result =
     \<lparr>computeTimeSec = fzero, meanSquareError = fzero, maxSingleError = fzero,
      inferenceOutput = [], inputOutputSequenceIndex = 0, inputOutputIndex = 0\<rparr>"

section \<open>Properties\<close>

subsection \<open>Rounding and comparison of binary32 numbers\<close>

lemma bit_length_0 [simp]: "bit_length 0 = 0"
  by (simp add: bit_length.simps)

lemma bit_length_double: "0 < n \<Longrightarrow> bit_length (2 * n) = Suc (bit_length n)"
  by (subst bit_length.simps) simp

lemma bit_length_shift: "0 < c \<Longrightarrow> bit_length (c * 2 ^ k) = bit_length c + k"
proof (induction k)
  case 0
  then show ?case by simp
next
  case (Suc k)
  have "bit_length (c * 2 ^ Suc k) = bit_length (2 * (c * 2 ^ k))"
    by (simp add: mult.commute mult.left_commute)
  also have "\<dots> = Suc (bit_length (c * 2 ^ k))"
    using Suc.prems by (intro bit_length_double) simp
  finally show ?case using Suc by simp
qed

lemma bit_length_lower: "0 < n \<Longrightarrow> 2 ^ (bit_length n - 1) \<le> n"
proof (induction n rule: bit_length.induct)
  case (1 n)
  show ?case
  proof (cases "n div 2 = 0")
    case True
    then have "bit_length n = 1" using "1.prems"
      by (subst bit_length.simps) (simp add: bit_length.simps)
    then show ?thesis using "1.prems" by simp
  next
    case False
    then have ih: "2 ^ (bit_length (n div 2) - 1) \<le> n div 2"
      using "1.IH" "1.prems" by simp
    have pos: "0 < bit_length (n div 2)"
      using False by (subst bit_length.simps) simp
    have "bit_length n = Suc (bit_length (n div 2))"
      using "1.prems" by (subst bit_length.simps) simp
    then have "(2::nat) ^ (bit_length n - 1) = 2 * 2 ^ (bit_length (n div 2) - 1)"
      using pos by (cases "bit_length (n div 2)") simp_all
    also have "\<dots> \<le> 2 * (n div 2)" using ih by simp
    also have "\<dots> \<le> n" by simp
    finally show ?thesis .
  qed
qed

lemma round_nearest_even_ge: "p div q \<le> round_nearest_even p q"
  by (simp add: round_nearest_even_def Let_def)

lemma round_nearest_even_exact: "0 < q \<Longrightarrow> round_nearest_even (k * q) q = k"
  by (simp add: round_nearest_even_def Let_def)

lemma round_f32_positive:
  assumes "0 < p"
  shows "round_f32 s p 1 = Infinity s \<or> (\<exists>m. 0 < m \<and> round_f32 s p 1 = Finite s m)"
proof -
  define e where "e = bit_length p - 24"
  have "(2::nat) ^ e \<le> 2 ^ (bit_length p - 1)"
    unfolding e_def by (rule power_increasing) simp_all
  also have "\<dots> \<le> p" using assms by (rule bit_length_lower)
  finally have "1 \<le> p div 2 ^ e"
    by (simp add: Suc_le_eq div_greater_zero_iff)
  then have "1 \<le> round_nearest_even p (2 ^ e)"
    using round_nearest_even_ge [of p "2 ^ e"] by linarith
  then have "0 < round_nearest_even p (2 ^ e) * 2 ^ e" by simp
  then show ?thesis
    by (simp add: round_f32_def Let_def e_def)
qed

lemma round_f32_exact:
  assumes "0 < c" and "c < 2 ^ 24" and "c * 2 ^ k < 2 ^ 277"
  shows "round_f32 s (c * 2 ^ k) 1 = Finite s (c * 2 ^ k)"
proof -
  have "(2::nat) ^ (bit_length c - 1) < 2 ^ 24"
    using bit_length_lower [OF assms(1)] assms(2) by linarith
  then have "bit_length c - 1 < 24"
    using power_less_imp_less_exp [of "2::nat" "bit_length c - 1" 24] by simp
  then have le: "bit_length c \<le> 24" by simp
  define e where "e = bit_length (c * 2 ^ k) - 24"
  have "e = bit_length c + k - 24"
    unfolding e_def using assms(1) by (simp only: bit_length_shift)
  then have e: "e \<le> k" using le by simp
  have "(2::nat) ^ k = 2 ^ (k - e) * 2 ^ e"
    using e by (simp flip: power_add)
  then have split: "c * 2 ^ k = (c * 2 ^ (k - e)) * 2 ^ e"
    by simp
  have "round_nearest_even (c * 2 ^ k) (2 ^ e) = c * 2 ^ (k - e)"
    by (subst split) (rule round_nearest_even_exact, simp)
  then have "round_nearest_even (c * 2 ^ k) (2 ^ e) * 2 ^ e = (c * 2 ^ (k - e)) * 2 ^ e"
    by (simp only:)
  then have "round_nearest_even (c * 2 ^ k) (2 ^ e) * 2 ^ e = c * 2 ^ k"
    by (simp only: split [symmetric])
  then show ?thesis using assms(3)
    by (simp add: round_f32_def Let_def flip: e_def)
qed

lemma f32_of_int_small:
  assumes "\<bar>i\<bar> < 2 ^ 24"
  shows "f32_of_int i = Finite (i < 0) (nat \<bar>i\<bar> * 2 ^ 149)"
proof (cases "i = 0")
  case True
  then show ?thesis by (simp add: f32_of_int_def fzero_def)
next
  case False
  have small: "nat \<bar>i\<bar> < 2 ^ 24" using assms by (simp add: nat_less_iff)
  have pos: "0 < nat \<bar>i\<bar>" using False by simp
  have "nat \<bar>i\<bar> * 2 ^ 149 < (2::nat) ^ 24 * 2 ^ 149"
    using small by (simp only: mult_less_cancel2) simp
  also have "\<dots> \<le> 2 ^ 277" by (simp flip: power_add)
  finally have "round_f32 (i < 0) (nat \<bar>i\<bar> * 2 ^ 149) 1 = Finite (i < 0) (nat \<bar>i\<bar> * 2 ^ 149)"
    using pos small by (intro round_f32_exact)
  then show ?thesis using False by (simp add: f32_of_int_def)
qed

lemma f32_of_uint8_eq: "f32_of_uint8 b = Finite False (unat b * 2 ^ 149)"
proof -
  have "uint b < 256" using uint_lt2p [of b] by simp
  moreover have ge: "0 \<le> uint b" by simp
  ultimately have "\<bar>uint b\<bar> < 16777216" by arith
  then have "\<bar>uint b\<bar> < 2 ^ 24" by simp
  then have A: "f32_of_int (uint b) = Finite (uint b < 0) (nat \<bar>uint b\<bar> * 2 ^ 149)"
    by (rule f32_of_int_small)
  have B: "(uint b < 0) = False" by simp
  have C: "nat \<bar>uint b\<bar> = unat b" by simp
  show ?thesis unfolding f32_of_uint8_def A B C by (rule refl)
qed

lemma fsub_scaled:
  "fsub (Finite False (a * 2 ^ k)) (Finite False (b * 2 ^ k)) =
     (if a = b then Finite False 0
      else round_f32 (a < b) ((if a < b then b - a else a - b) * 2 ^ k) 1)"
proof -
  consider "a = b" | "a < b" | "b < a" by linarith
  then show ?thesis
  proof cases
    case 1
    then show ?thesis by (simp add: fsub_def signed_units_def)
  next
    case 2
    then have "int (a * 2 ^ k) - int (b * 2 ^ k) = - int ((b - a) * 2 ^ k)"
      by (simp add: algebra_simps)
    moreover have "0 < (b - a) * 2 ^ k" using 2 by simp
    ultimately show ?thesis using 2
      by (simp add: fsub_def signed_units_def Let_def del: of_nat_mult of_nat_power)
  next
    case 3
    then have "int (a * 2 ^ k) - int (b * 2 ^ k) = int ((a - b) * 2 ^ k)"
      by (simp add: algebra_simps)
    moreover have "0 < (a - b) * 2 ^ k" using 3 by simp
    ultimately show ?thesis using 3
      by (simp add: fsub_def signed_units_def Let_def del: of_nat_mult of_nat_power)
  qed
qed

lemma fsub_uint8_exact:
  "fsub (f32_of_uint8 p) (f32_of_uint8 e) = f32_of_int (uint p - uint e)"
proof -
  define d where "d = uint p - uint e"
  have "uint p < 256" "uint e < 256"
    using uint_lt2p [of p] uint_lt2p [of e] by simp_all
  moreover have "0 \<le> uint p" "0 \<le> uint e" by simp_all
  ultimately have "\<bar>d\<bar> < 16777216" unfolding d_def by arith
  then have "\<bar>d\<bar> < 2 ^ 24" by simp
  then have r: "f32_of_int d = Finite (d < 0) (nat \<bar>d\<bar> * 2 ^ 149)"
    by (rule f32_of_int_small)
  have d: "d = int (unat p) - int (unat e)" by (simp add: d_def)
  have neg: "(d < 0) = (unat p < unat e)" unfolding d by linarith
  have "nat \<bar>int a - int b\<bar> = (if a < b then b - a else a - b)" for a b :: nat
    by auto
  then have mag: "nat \<bar>d\<bar> = (if unat p < unat e then unat e - unat p else unat p - unat e)"
    unfolding d .
  have zero: "(d = 0) = (unat p = unat e)" unfolding d by linarith
  have "fsub (f32_of_uint8 p) (f32_of_uint8 e)
          = (if d = 0 then Finite False 0 else round_f32 (d < 0) (nat \<bar>d\<bar> * 2 ^ 149) 1)"
    unfolding f32_of_uint8_eq fsub_scaled neg mag zero by (rule refl)
  also have "\<dots> = f32_of_int d"
    unfolding f32_of_int_def fzero_def by (rule refl)
  finally show ?thesis unfolding d_def .
qed


lemma signed_units_flip: "signed_units (\<not> s) m = - signed_units s m"
  by (simp add: signed_units_def)

lemma fgt_round_zero:
  "0 < p \<Longrightarrow> fgt (round_f32 False p 1) fzero"
  "0 < p \<Longrightarrow> fgt fzero (round_f32 True p 1)"
  using round_f32_positive [of p False] round_f32_positive [of p True]
  by (auto simp: fzero_def signed_units_def)

lemma fsub_finite:
  "fsub (Finite s m) (Finite t n) =
     (let v = signed_units s m - signed_units t n
      in if v = 0 then Finite (s \<and> \<not> t) 0 else round_f32 (v < 0) (nat \<bar>v\<bar>) 1)"
  by (simp add: fsub_def signed_units_flip)

lemma fgt_fsub_pos: "fgt a b \<Longrightarrow> fgt (fsub a b) fzero"
proof (cases a; cases b)
  fix s m t n
  assume ab: "a = Finite s m" "b = Finite t n" and gt: "fgt a b"
  define v where "v = signed_units s m - signed_units t n"
  have "0 < v" using gt ab by (simp add: v_def)
  then have "fgt (round_f32 False (nat \<bar>v\<bar>) 1) fzero"
    by (intro fgt_round_zero) simp
  then show ?thesis using \<open>0 < v\<close> ab
    by (simp add: fsub_finite Let_def flip: v_def)
qed (auto simp: fsub_def fzero_def)

lemma fgt_fsub_neg: "fgt b a \<Longrightarrow> fgt fzero (fsub a b)"
proof (cases a; cases b)
  fix s m t n
  assume ab: "a = Finite s m" "b = Finite t n" and gt: "fgt b a"
  define v where "v = signed_units s m - signed_units t n"
  have "v < 0" using gt ab by (simp add: v_def)
  then have "fgt fzero (round_f32 True (nat \<bar>v\<bar>) 1)"
    by (intro fgt_round_zero) simp
  then show ?thesis using \<open>v < 0\<close> ab
    by (simp add: fsub_finite Let_def flip: v_def)
qed (auto simp: fsub_def fzero_def)

lemma fgt_asym: "fgt a b \<Longrightarrow> \<not> fgt b a"
  by (cases a; cases b) auto

lemma fgt_trans: "fgt a b \<Longrightarrow> fgt b c \<Longrightarrow> fgt a c"
  by (cases a; cases b; cases c) auto

lemma negative_error_not_above:
  assumes "fgt fzero err" and "m = fzero \<or> fgt m fzero"
  shows "\<not> fgt err m"
proof
  assume "fgt err m"
  then have "fgt err fzero" using assms(2) fgt_trans by blast
  then show False using assms(1) fgt_asym by blast
qed

lemma error_loop_snoc:
  "error_loop (xs @ [(p, e)]) acc =
     (let (m, s) = error_loop xs acc; err = fsub p e
      in (if fgt err m then err else m, fadd s (fmul err err)))"
proof (induction xs arbitrary: acc)
  case Nil
  then show ?case by (cases acc) (simp add: Let_def)
next
  case (Cons x xs)
  then show ?case by (cases acc; cases x) (simp add: Let_def)
qed

lemma error_loop_nonneg:
  "m = fzero \<or> fgt m fzero \<Longrightarrow>
   fst (error_loop xs (m, s)) = fzero \<or> fgt (fst (error_loop xs (m, s))) fzero"
proof (induction xs arbitrary: m s)
  case Nil
  then show ?case by simp
next
  case (Cons x xs)
  obtain p e where x: "x = (p, e)" by (cases x)
  define m' where "m' = (if fgt (fsub p e) m then fsub p e else m)"
  have "m' = fzero \<or> fgt m' fzero"
    using Cons.prems fgt_trans unfolding m'_def by auto
  then show ?case
    using Cons.IH [of m'] by (simp add: x Let_def m'_def)
qed

subsection \<open>The error metric\<close>

lemma getOutputError_uint8:
  "length out = length expected \<Longrightarrow>
   getOutputError ndebug (uint8_tensor out) expected r =
     (let l = error_loop (zip (map f32_of_uint8 out) (map f32_of_uint8 expected)) (fzero, fzero)
      in Inr (r\<lparr>meanSquareError := fdiv (snd l) (f32_of_int (int (length out))),
                 maxSingleError := fst l\<rparr>))"
  by (simp add: getOutputError_def bytes_def and_then_def Let_def case_prod_beta)

lemma getOutputError_float32:
  "length out = length expected \<Longrightarrow>
   getOutputError ndebug (float32_tensor out) expected r =
     (let l = error_loop (zip (floats_of_bytes out) (floats_of_bytes expected)) (fzero, fzero)
      in Inr (r\<lparr>meanSquareError := fdiv (snd l) (f32_of_int (int (length out div 4))),
                 maxSingleError := fst l\<rparr>))"
  by (simp add: getOutputError_def bytes_def and_then_def Let_def case_prod_beta)

lemma floats_of_bytes_chunks:
  "length bs = 4 * n \<Longrightarrow> floats_of_bytes (bs @ cs) = floats_of_bytes bs @ floats_of_bytes cs"
proof (induction n arbitrary: bs)
  case 0
  then show ?case by simp
next
  case (Suc n)
  then have "length bs = Suc (Suc (Suc (Suc (4 * n))))" by simp
  then obtain b0 b1 b2 b3 bs' where bs: "bs = b0 # b1 # b2 # b3 # bs'" "length bs' = 4 * n"
    by (auto simp: length_Suc_conv)
  then show ?case using Suc.IH [of bs'] by simp
qed

lemma floats_of_bytes_append:
  "4 dvd length bs \<Longrightarrow> floats_of_bytes (bs @ cs) = floats_of_bytes bs @ floats_of_bytes cs"
  using floats_of_bytes_chunks by (auto simp: dvd_def)

lemma length_floats_of_bytes: "length (floats_of_bytes bs) = length bs div 4"
  by (induction bs rule: floats_of_bytes.induct) auto

lemma floats_of_bytes_four:
  "length bs = 4 \<Longrightarrow> \<exists>x. floats_of_bytes bs = [x]"
  by (cases bs rule: floats_of_bytes.cases) auto

text \<open>The running maximum after one more element.\<close>

lemma max_error_snoc:
  assumes "length xs = length ys"
  shows "fst (error_loop (zip (xs @ [p]) (ys @ [e])) (fzero, fzero)) =
           (let m = fst (error_loop (zip xs ys) (fzero, fzero))
            in if fgt (fsub p e) m then fsub p e else m)"
    and "fgt fzero (fsub p e) \<Longrightarrow>
         fst (error_loop (zip (xs @ [p]) (ys @ [e])) (fzero, fzero)) =
         fst (error_loop (zip xs ys) (fzero, fzero))"
proof -
  have zip: "zip (xs @ [p]) (ys @ [e]) = zip xs ys @ [(p, e)]"
    using assms by simp
  show 1: "fst (error_loop (zip (xs @ [p]) (ys @ [e])) (fzero, fzero)) =
           (let m = fst (error_loop (zip xs ys) (fzero, fzero))
            in if fgt (fsub p e) m then fsub p e else m)"
    unfolding zip error_loop_snoc by (simp add: Let_def case_prod_beta)
  assume neg: "fgt fzero (fsub p e)"
  have "fst (error_loop (zip xs ys) (fzero, fzero)) = fzero
        \<or> fgt (fst (error_loop (zip xs ys) (fzero, fzero))) fzero"
    by (rule error_loop_nonneg) simp
  then have "\<not> fgt (fsub p e) (fst (error_loop (zip xs ys) (fzero, fzero)))"
    using neg negative_error_not_above by blast
  then show "fst (error_loop (zip (xs @ [p]) (ys @ [e])) (fzero, fzero)) =
         fst (error_loop (zip xs ys) (fzero, fzero))"
    unfolding 1 by (simp add: Let_def)
qed


lemma fgt_scaled: "fgt (Finite False (m * 2 ^ k)) (Finite False (n * 2 ^ k)) \<longleftrightarrow> n < m"
  by (simp add: signed_units_def)

lemma fgt_uint8: "fgt (f32_of_uint8 a) (f32_of_uint8 b) \<longleftrightarrow> b < a"
  unfolding f32_of_uint8_eq fgt_scaled by (simp add: word_less_nat_alt)

lemma single_max_error:
  "fst (error_loop [(p, e)] (fzero, fzero)) = (if fgt (fsub p e) fzero then fsub p e else fzero)"
  by (simp add: Let_def)

lemma single_max_error_greater:
  "fgt p e \<Longrightarrow> fst (error_loop [(p, e)] (fzero, fzero)) = fsub p e"
  using fgt_fsub_pos [of p e] by (simp add: Let_def)

lemma single_max_error_less:
  "fgt e p \<Longrightarrow> fst (error_loop [(p, e)] (fzero, fzero)) = fzero"
  using fgt_fsub_neg [of e p] fgt_asym [of fzero "fsub p e"] by (simp add: Let_def)


lemma getOutputError_fields:
  assumes "getOutputError ndebug t expected r = Inr r'"
  shows "computeTimeSec r' = computeTimeSec r \<and> inferenceOutput r' = inferenceOutput r
         \<and> inputOutputSequenceIndex r' = inputOutputSequenceIndex r
         \<and> inputOutputIndex r' = inputOutputIndex r"
  using assms
  by (auto simp: getOutputError_def and_then_def FATAL_def Let_def case_prod_beta
           split: if_splits TfLiteType.splits sum.splits)

subsection \<open>The benchmark loop: one entry, one sequence, the whole run\<close>

lemma and_then_Inr:
  "and_then r f = Inr y \<longleftrightarrow> (\<exists>x. r = Inr x \<and> f x = Inr y)"
  by (cases r) (simp_all add: and_then_def)

lemma record_result_Inr:
  assumes "record_result ndebug flags s i data t st = Inr st'"
  shows "\<exists>r. st' = st\<lparr>results := results st @ [r], inferenceTotal := fadd (inferenceTotal st) t\<rparr>
           \<and> inputOutputSequenceIndex r = int s \<and> inputOutputIndex r = int i
           \<and> (flags AND FLAG_IGNORE_GOLDEN_OUTPUT \<noteq> 0 \<longrightarrow>
                meanSquareError r = fzero \<and> maxSingleError r = fzero)
           \<and> (flags AND FLAG_DISCARD_INFERENCE_OUTPUT \<noteq> 0 \<longrightarrow> inferenceOutput r = [])
           \<and> (flags AND FLAG_IGNORE_GOLDEN_OUTPUT = 0 \<longrightarrow>
                (\<exists>r0 r1. getOutputError ndebug (output_tensor (mTfliteInterpreter st)) (output_data data) r0
                           = Inr r1
                    \<and> meanSquareError r = meanSquareError r1
                    \<and> maxSingleError r = maxSingleError r1))"
proof -
  define base where "base = \<lparr>computeTimeSec = t, meanSquareError = fzero,
     maxSingleError = fzero, inferenceOutput = [],
     inputOutputSequenceIndex = int s, inputOutputIndex = int i\<rparr>"
  define scored where "scored = (if flags AND FLAG_IGNORE_GOLDEN_OUTPUT = 0
     then getOutputError ndebug (output_tensor (mTfliteInterpreter st)) (output_data data) base
     else Inr base)"
  obtain r1 where r1: "scored = Inr r1"
    using assms unfolding record_result_def scored_def base_def Let_def and_then_Inr by blast
  define r where "r = (if flags AND FLAG_DISCARD_INFERENCE_OUTPUT = 0
     then saveInferenceOutput (mTfliteInterpreter st) r1 else r1)"
  have st': "st' = st\<lparr>results := results st @ [r],
                        inferenceTotal := fadd (inferenceTotal st) t\<rparr>"
    using assms r1 unfolding record_result_def scored_def base_def r_def Let_def and_then_def
    by simp
  have fields: "inferenceOutput r1 = [] \<and> inputOutputSequenceIndex r1 = int s
                  \<and> inputOutputIndex r1 = int i"
  proof (cases "flags AND FLAG_IGNORE_GOLDEN_OUTPUT = 0")
    case True
    then show ?thesis
      using r1 getOutputError_fields [of _ _ _ base r1] by (simp add: scored_def base_def)
  next
    case False
    then show ?thesis using r1 by (auto simp: scored_def base_def)
  qed
  have ignored: "meanSquareError r = fzero \<and> maxSingleError r = fzero"
    if "flags AND FLAG_IGNORE_GOLDEN_OUTPUT \<noteq> 0"
    using that r1 by (auto simp: scored_def base_def r_def saveInferenceOutput_def)
  have discarded: "inferenceOutput r = []" if "flags AND FLAG_DISCARD_INFERENCE_OUTPUT \<noteq> 0"
    using that fields by (simp add: r_def)
  have computed: "\<exists>r0 r1. getOutputError ndebug (output_tensor (mTfliteInterpreter st))
                            (output_data data) r0 = Inr r1
                    \<and> meanSquareError r = meanSquareError r1
                    \<and> maxSingleError r = maxSingleError r1"
    if "flags AND FLAG_IGNORE_GOLDEN_OUTPUT = 0"
  proof (intro exI conjI)
    show "getOutputError ndebug (output_tensor (mTfliteInterpreter st)) (output_data data) base = Inr r1"
      using that r1 by (simp add: scored_def)
    show "meanSquareError r = meanSquareError r1" "maxSingleError r = maxSingleError r1"
      by (simp_all add: r_def saveInferenceOutput_def)
  qed
  have "inputOutputSequenceIndex r = int s \<and> inputOutputIndex r = int i"
    using fields by (simp add: r_def saveInferenceOutput_def)
  then show ?thesis using st' ignored discarded computed by blast
qed

lemma currentTimeInUsec_snd:
  "snd (currentTimeInUsec env st) = st\<lparr>clock_reads := Suc (clock_reads st)\<rparr>"
  by (simp add: currentTimeInUsec_def Let_def)

lemma benchmark_entry_False:
  assumes "benchmark_entry env tf flags s i data st = Inr (False, st')"
  shows "results st' = results st \<and> inferenceTotal st' = inferenceTotal st"
  using assms unfolding benchmark_entry_def
  by (auto simp: and_then_Inr Let_def case_prod_beta currentTimeInUsec_snd split: if_splits)

lemma benchmark_entry_True:
  assumes "benchmark_entry env tf flags s i data st = Inr (True, st')"
  shows "\<exists>t st4. record_result (NDEBUG env) flags s i data t st4 = Inr st' \<and> results st4 = results st
           \<and> inferenceTotal st4 = inferenceTotal st"
  using assms unfolding benchmark_entry_def
  by (auto simp: and_then_Inr Let_def case_prod_beta currentTimeInUsec_snd split: if_splits)
     (rule exI, rule exI, rule conjI, assumption, simp)


lemma benchmark_sequence_end:
  "\<not> i < length seq \<Longrightarrow> benchmark_sequence env tf flags s seq i st = Inr (True, st)"
  by (subst benchmark_sequence.simps) simp

lemma benchmark_sequence_step:
  "i < length seq \<Longrightarrow>
   benchmark_sequence env tf flags s seq i st =
     (case benchmark_entry env tf flags s i (seq ! i) st of
        Inl e \<Rightarrow> Inl e
      | Inr (False, st') \<Rightarrow> Inr (False, st')
      | Inr (True, st') \<Rightarrow> benchmark_sequence env tf flags s seq (Suc i) st')"
  by (subst benchmark_sequence.simps) simp

lemma benchmark_sequence_results:
  assumes entry: "\<And>i data st st'.
      benchmark_entry env tf flags s i data st = Inr (True, st') \<Longrightarrow>
      \<exists>r. results st' = results st @ [r] \<and> Q i data r"
  shows "benchmark_sequence env tf flags s seq i st = Inr (b, st') \<Longrightarrow> i \<le> length seq \<Longrightarrow>
     \<exists>j new. i \<le> j \<and> results st' = results st @ new
        \<and> list_all2 (\<lambda>i r. Q i (seq ! i) r) [i..<j] new
        \<and> (if b then j = length seq else j < length seq)"
proof (induction "length seq - i" arbitrary: i st)
  case 0
  then have "\<not> i < length seq" by simp
  then have "b" "st' = st" using "0.prems" by (simp_all add: benchmark_sequence_end)
  then show ?case using "0.prems" \<open>\<not> i < length seq\<close>
    by (intro exI [of _ i] exI [of _ "[]"]) simp
next
  case (Suc n)
  then have lt: "i < length seq" by simp
  note step = benchmark_sequence_step [OF lt, of env tf flags s st]
  show ?case
  proof (cases "benchmark_entry env tf flags s i (seq ! i) st")
    case (Inl e)
    then show ?thesis using Suc.prems step by simp
  next
    case (Inr res)
    obtain ok st1 where res: "res = (ok, st1)" by (cases res)
    show ?thesis
    proof (cases ok)
      case False
      then have "\<not> b" "st' = st1" using Suc.prems step Inr res by simp_all
      moreover have "results st1 = results st"
        using benchmark_entry_False [of env tf flags s i "seq ! i" st st1] Inr res False
        by simp
      ultimately show ?thesis using lt
        by (intro exI [of _ i] exI [of _ "[]"]) simp
    next
      case True
      then have rest: "benchmark_sequence env tf flags s seq (Suc i) st1 = Inr (b, st')"
        using Suc.prems step Inr res by simp
      obtain r where r: "results st1 = results st @ [r]" "Q i (seq ! i) r"
        using entry [of i "seq ! i" st st1] Inr res True by auto
      have "n = length seq - Suc i" using Suc.hyps(2) by simp
      from Suc.hyps(1) [OF this rest] lt
      obtain j new where j: "Suc i \<le> j" "results st' = results st1 @ new"
        "list_all2 (\<lambda>i r. Q i (seq ! i) r) [Suc i..<j] new"
        "if b then j = length seq else j < length seq"
        by auto
      have "[i..<j] = i # [Suc i..<j]" using j(1) by (simp add: upt_conv_Cons)
      then have "list_all2 (\<lambda>i r. Q i (seq ! i) r) [i..<j] (r # new)"
        using r(2) j(3) by simp
      then show ?thesis using j r(1)
        by (intro exI [of _ j] exI [of _ "r # new"]) simp
    qed
  qed
qed


lemma benchmark_loop_end:
  "\<not> int k < maxc \<Longrightarrow>
   benchmark_loop env tf inOutData maxc timeout flags k st = Inr (True, st)"
  by (subst benchmark_loop.simps) simp

lemma benchmark_loop_empty:
  "int k < maxc \<Longrightarrow>
   benchmark_loop env tf [] maxc timeout flags k st = Inl (Undefined RemainderByZero)"
  by (subst benchmark_loop.simps) (simp add: Let_def)

lemma benchmark_loop_step:
  "int k < maxc \<Longrightarrow> inOutData \<noteq> [] \<Longrightarrow>
   benchmark_loop env tf inOutData maxc timeout flags k st =
     (case benchmark_sequence env tf flags (k mod length inOutData)
             (inOutData ! (k mod length inOutData)) 0
             (st\<lparr>mTfliteInterpreter := snd (resetStates env (mTfliteInterpreter st))\<rparr>) of
        Inl e \<Rightarrow> Inl e
      | Inr (False, st') \<Rightarrow> Inr (False, st')
      | Inr (True, st') \<Rightarrow>
          if fgt (inferenceTotal st') timeout then Inr (True, st')
          else benchmark_loop env tf inOutData maxc timeout flags (Suc k) st')"
  by (subst benchmark_loop.simps) (simp add: Let_def)

lemma visited_empty: "visited inOutData k k = []"
  by (simp add: visited_def)

lemma visited_first: "k < m \<Longrightarrow>
  visited inOutData k m = step_entries inOutData k @ visited inOutData (Suc k) m"
  by (simp add: visited_def upt_conv_Cons)

lemma benchmark_loop_results:
  assumes entry: "\<And>s i data st st'.
      benchmark_entry env tf flags s i data st = Inr (True, st') \<Longrightarrow>
      \<exists>r. results st' = results st @ [r] \<and> Q s i data r"
  shows "benchmark_loop env tf inOutData maxc timeout flags k st = Inr (b, st') \<Longrightarrow>
     \<exists>m j new. k \<le> m \<and> results st' = results st @ new
        \<and> list_all2 (\<lambda>(s, i) r. Q s i (inOutData ! s ! i) r)
             (visited inOutData k m @ take j (step_entries inOutData m)) new
        \<and> (if b then j = 0 \<and> (int m \<le> maxc \<or> m = k)
                      \<and> (int m < maxc \<longrightarrow> fgt (inferenceTotal st') timeout)
            else int m < maxc \<and> j < length (inOutData ! (m mod length inOutData)))"
proof (induction "nat (maxc - int k)" arbitrary: k st)
  case 0
  then have stop: "\<not> int k < maxc" by simp
  then have "b" "st' = st" using "0.prems" by (simp_all add: benchmark_loop_end)
  then show ?case using stop
    by (intro exI [of _ k] exI [of _ 0] exI [of _ "[]"]) (simp add: visited_empty)
next
  case (Suc n)
  then have lt: "int k < maxc" by simp
  define s where "s = k mod length inOutData"
  define seq where "seq = inOutData ! s"
  define st0 where
    "st0 = st\<lparr>mTfliteInterpreter := snd (resetStates env (mTfliteInterpreter st))\<rparr>"
  have st0: "results st0 = results st" by (simp add: st0_def)
  have nonempty: "inOutData \<noteq> []"
  proof
    assume "inOutData = []"
    then have "benchmark_loop env tf inOutData maxc timeout flags k st
        = Inl (Undefined RemainderByZero)"
      using benchmark_loop_empty [OF lt, of env tf timeout flags st] by simp
    then show False using Suc.prems by simp
  qed
  note step = benchmark_loop_step [OF lt nonempty, of env tf timeout flags st,
      folded s_def, folded seq_def st0_def]
  have block: "step_entries inOutData k = map (\<lambda>i. (s, i)) [0..<length seq]"
    by (simp add: step_entries_def s_def seq_def Let_def)
  have seq_results: "\<exists>j new. results st1 = results st @ new
        \<and> list_all2 (\<lambda>(s, i) r. Q s i (inOutData ! s ! i) r) (map (\<lambda>i. (s, i)) [0..<j]) new
        \<and> (if ok then j = length seq else j < length seq)"
    if "benchmark_sequence env tf flags s seq 0 st0 = Inr (ok, st1)" for ok st1
  proof -
    from benchmark_sequence_results [where Q = "Q s", OF entry that]
    obtain j new where "results st1 = results st0 @ new"
      "list_all2 (\<lambda>i r. Q s i (seq ! i) r) [0..<j] new"
      "if ok then j = length seq else j < length seq"
      by auto
    then show ?thesis using st0
      by (intro exI [of _ j] exI [of _ new]) (simp add: list_all2_map1 seq_def)
  qed
  show ?case
  proof (cases "benchmark_sequence env tf flags s seq 0 st0")
    case (Inl e)
    then show ?thesis using Suc.prems step by simp
  next
    case (Inr res)
    obtain ok st1 where res: "res = (ok, st1)" by (cases res)
    from seq_results [of ok st1] Inr res
    obtain j new where new: "results st1 = results st @ new"
      "list_all2 (\<lambda>(s, i) r. Q s i (inOutData ! s ! i) r) (map (\<lambda>i. (s, i)) [0..<j]) new"
      "if ok then j = length seq else j < length seq"
      by auto
    show ?thesis
    proof (cases ok)
      case False
      then have "\<not> b" "st' = st1" using Suc.prems step Inr res by simp_all
      moreover have "take j (step_entries inOutData k) = map (\<lambda>i. (s, i)) [0..<j]"
        using new(3) False by (simp add: block take_map)
      ultimately show ?thesis using new False lt
        by (intro exI [of _ k] exI [of _ j] exI [of _ new])
           (simp add: visited_empty s_def seq_def)
    next
      case True
      then have whole: "list_all2 (\<lambda>(s, i) r. Q s i (inOutData ! s ! i) r)
          (step_entries inOutData k) new"
        using new by (simp add: block)
      show ?thesis
      proof (cases "fgt (inferenceTotal st1) timeout")
        case exceeded: True
        then have "b" "st' = st1" using Suc.prems step Inr res True by simp_all
        moreover have "visited inOutData k (Suc k) = step_entries inOutData k"
          by (simp add: visited_def)
        ultimately show ?thesis using new(1) whole exceeded lt
          by (intro exI [of _ "Suc k"] exI [of _ 0] exI [of _ new]) simp
      next
        case False
        then have rest: "benchmark_loop env tf inOutData maxc timeout flags (Suc k) st1
            = Inr (b, st')"
          using Suc.prems step Inr res True by simp
        have "n = nat (maxc - int (Suc k))" using Suc.hyps(2) by simp
        from Suc.hyps(1) [OF this rest]
        obtain m j2 new2 where m: "Suc k \<le> m" "results st' = results st1 @ new2"
          "list_all2 (\<lambda>(s, i) r. Q s i (inOutData ! s ! i) r)
             (visited inOutData (Suc k) m @ take j2 (step_entries inOutData m)) new2"
          "if b then j2 = 0 \<and> (int m \<le> maxc \<or> m = Suc k)
                      \<and> (int m < maxc \<longrightarrow> fgt (inferenceTotal st') timeout)
           else int m < maxc \<and> j2 < length (inOutData ! (m mod length inOutData))"
          by blast
        have "visited inOutData k m = step_entries inOutData k @ visited inOutData (Suc k) m"
          using m(1) by (intro visited_first) simp
        then have "list_all2 (\<lambda>(s, i) r. Q s i (inOutData ! s ! i) r)
            (visited inOutData k m @ take j2 (step_entries inOutData m)) (new @ new2)"
          using whole m(3) by (simp add: list_all2_appendI)
        moreover have "int m \<le> maxc" if "b" using that m(4) lt by auto
        ultimately show ?thesis using m new(1)
          by (intro exI [of _ m] exI [of _ j2] exI [of _ "new @ new2"]) (auto split: if_splits)
      qed
    qed
  qed
qed


lemma benchmark_results:
  assumes entry: "\<And>s i data st st'.
      benchmark_entry env tf flags s i data st = Inr (True, st') \<Longrightarrow>
      \<exists>r. results st' = results st @ [r] \<and> Q s i data r"
    and run: "benchmark env tf inOutData maxc timeout flags st = Inr (b, st')"
  shows "\<exists>m j. results st' = results st @ appended st st'
        \<and> list_all2 (\<lambda>(s, i) r. Q s i (inOutData ! s ! i) r)
             (visited inOutData 0 m @ take j (step_entries inOutData m)) (appended st st')
        \<and> (if b then j = 0 \<and> (int m \<le> maxc \<or> m = 0)
                      \<and> (int m < maxc \<longrightarrow> fgt (inferenceTotal st') timeout)
            else int m < maxc \<and> j < length (inOutData ! (m mod length inOutData)))"
proof -
  have "benchmark_loop env tf inOutData maxc timeout flags 0 (st\<lparr>inferenceTotal := fzero\<rparr>)
          = Inr (b, st')"
    using run by (simp add: benchmark_def and_then_Inr)
  from benchmark_loop_results [where Q = Q, OF entry this]
  obtain m j new where new: "results st' = results st @ new"
    "list_all2 (\<lambda>(s, i) r. Q s i (inOutData ! s ! i) r)
       (visited inOutData 0 m @ take j (step_entries inOutData m)) new"
    "if b then j = 0 \<and> (int m \<le> maxc \<or> m = 0)
                \<and> (int m < maxc \<longrightarrow> fgt (inferenceTotal st') timeout)
     else int m < maxc \<and> j < length (inOutData ! (m mod length inOutData))"
    by auto
  have "appended st st' = new" using new(1) by (simp add: appended_def)
  then show ?thesis using new by blast
qed


lemma benchmark_entry_recorded:
  assumes "benchmark_entry env tf flags s i data st = Inr (True, st')"
  shows "\<exists>r. results st' = results st @ [r]
           \<and> inputOutputSequenceIndex r = int s \<and> inputOutputIndex r = int i
           \<and> (flags AND FLAG_IGNORE_GOLDEN_OUTPUT \<noteq> 0 \<longrightarrow>
                meanSquareError r = fzero \<and> maxSingleError r = fzero)
           \<and> (flags AND FLAG_DISCARD_INFERENCE_OUTPUT \<noteq> 0 \<longrightarrow> inferenceOutput r = [])
           \<and> (flags AND FLAG_IGNORE_GOLDEN_OUTPUT = 0 \<longrightarrow>
                (\<exists>r0 r1. getOutputError (NDEBUG env) (output_tensor (mTfliteInterpreter st'))
                            (output_data data) r0 = Inr r1
                    \<and> meanSquareError r = meanSquareError r1
                    \<and> maxSingleError r = maxSingleError r1))"
proof -
  obtain t st4 where rec: "record_result (NDEBUG env) flags s i data t st4 = Inr st'"
    and st4: "results st4 = results st"
    using benchmark_entry_True [OF assms] by blast
  obtain r where r: "st' = st4\<lparr>results := results st4 @ [r],
                               inferenceTotal := fadd (inferenceTotal st4) t\<rparr>"
    "inputOutputSequenceIndex r = int s \<and> inputOutputIndex r = int i"
    "flags AND FLAG_IGNORE_GOLDEN_OUTPUT \<noteq> 0 \<longrightarrow>
       meanSquareError r = fzero \<and> maxSingleError r = fzero"
    "flags AND FLAG_DISCARD_INFERENCE_OUTPUT \<noteq> 0 \<longrightarrow> inferenceOutput r = []"
    "flags AND FLAG_IGNORE_GOLDEN_OUTPUT = 0 \<longrightarrow>
       (\<exists>r0 r1. getOutputError (NDEBUG env) (output_tensor (mTfliteInterpreter st4)) (output_data data) r0
                   = Inr r1
           \<and> meanSquareError r = meanSquareError r1 \<and> maxSingleError r = maxSingleError r1)"
    using record_result_Inr [OF rec] by blast
  have "mTfliteInterpreter st' = mTfliteInterpreter st4" "results st' = results st @ [r]"
    using r(1) st4 by simp_all
  then show ?thesis using r(2-5) by (intro exI [of _ r]) simp
qed

lemma tags_of_list_all2:
  "list_all2 (\<lambda>(s, i) r. inputOutputSequenceIndex r = int s \<and> inputOutputIndex r = int i) ps rs
   \<Longrightarrow> map (\<lambda>r. (inputOutputSequenceIndex r, inputOutputIndex r)) rs
         = map (\<lambda>(s, i). (int s, int i)) ps"
  by (induction ps rs rule: list_all2_induct) auto

lemma all_of_list_all2: "list_all2 (\<lambda>p r. P r) ps rs \<Longrightarrow> \<forall>r\<in>set rs. P r"
  by (induction ps rs rule: list_all2_induct) auto

lemma call_resolved: "p \<noteq> nullptr \<Longrightarrow> call p = Inr ()"
  by (cases p) simp_all

lemma and_then_unit: "and_then (Inr x) f = f x"
  by (simp add: and_then_def)

lemma benchmark_entry_resolved:
  assumes "ATrace_beginSection tf \<noteq> nullptr" and "ATrace_endSection tf \<noteq> nullptr"
  shows "benchmark_entry env tf flags s i data st =
     and_then (provide_input data (mTfliteInterpreter st)) (\<lambda>(created, interp).
       let st = st\<lparr>mTfliteInterpreter := interp\<rparr>
       in if \<not> created then Inr (False, st)
          else
            let (startTime, st) = currentTimeInUsec env st;
                (success, interp) = runInference env (mTfliteInterpreter st);
                st = st\<lparr>mTfliteInterpreter := interp\<rparr>
            in
            let (endTime, st) = currentTimeInUsec env st
            in if \<not> success then Inr (False, st)
               else
                 let inferenceTime =
                       fdiv (f32_of_int (sint (endTime - startTime))) (f32_of_int 1000000)
                 in and_then
                      (record_result (NDEBUG env) flags s i data inferenceTime st)
                      (\<lambda>st. Inr (True, st)))"
  unfolding benchmark_entry_def call_resolved [OF assms(1)] call_resolved [OF assms(2)]
    and_then_unit
  by (rule refl)

lemma getOutputError_Inl:
  "getOutputError ndebug t expected r = Inl e \<Longrightarrow> e \<noteq> Undefined NullFunctionPointerCall"
  by (auto simp: getOutputError_def and_then_def FATAL_def Let_def case_prod_beta
           split: if_splits TfLiteType.splits sum.splits)

lemma record_result_Inl:
  "record_result ndebug flags s i data t st = Inl e \<Longrightarrow> e \<noteq> Undefined NullFunctionPointerCall"
  by (auto simp: record_result_def and_then_def Let_def
           split: if_splits sum.splits dest: getOutputError_Inl)

lemma provide_input_Inl:
  "provide_input data interp = Inl e \<Longrightarrow> e \<noteq> Undefined NullFunctionPointerCall"
  by (auto simp: provide_input_def setInput_def memcpy_def and_then_def Let_def case_prod_beta
           split: if_splits sum.splits option.splits TfLiteType.splits)

lemma benchmark_entry_Inl_resolved:
  assumes "ATrace_beginSection tf \<noteq> nullptr" and "ATrace_endSection tf \<noteq> nullptr"
    and "benchmark_entry env tf flags s i data st = Inl e"
  shows "e \<noteq> Undefined NullFunctionPointerCall"
  using assms(3) unfolding benchmark_entry_resolved [OF assms(1,2)]
  by (auto simp: Let_def case_prod_beta and_then_def
           split: if_splits sum.splits dest: record_result_Inl provide_input_Inl)

lemma benchmark_sequence_Inl:
  "benchmark_sequence env tf flags s seq i st = Inl e \<Longrightarrow>
   \<exists>i' st1. i' < length seq \<and> benchmark_entry env tf flags s i' (seq ! i') st1 = Inl e"
proof (induction "length seq - i" arbitrary: i st)
  case 0
  then show ?case by (simp add: benchmark_sequence_end)
next
  case (Suc n)
  then have lt: "i < length seq" by simp
  note step = benchmark_sequence_step [OF lt, of env tf flags s st]
  show ?case
  proof (cases "benchmark_entry env tf flags s i (seq ! i) st")
    case (Inl e')
    then show ?thesis using Suc.prems step lt by auto
  next
    case (Inr res)
    obtain ok st1 where res: "res = (ok, st1)" by (cases res)
    have "n = length seq - Suc i" using Suc.hyps(2) by simp
    then show ?thesis using Suc.hyps(1) [of "Suc i" st1] Suc.prems step Inr res
      by (cases ok) simp_all
  qed
qed

lemma benchmark_loop_Inl:
  "benchmark_loop env tf inOutData maxc timeout flags k st = Inl e \<Longrightarrow>
   e = Undefined RemainderByZero
   \<or> (\<exists>s i data st1. benchmark_entry env tf flags s i data st1 = Inl e)"
proof (induction "nat (maxc - int k)" arbitrary: k st)
  case 0
  then show ?case by (simp add: benchmark_loop_end)
next
  case (Suc n)
  then have lt: "int k < maxc" by simp
  show ?case
  proof (cases "inOutData = []")
    case True
    then have "benchmark_loop env tf inOutData maxc timeout flags k st
        = Inl (Undefined RemainderByZero)"
      using benchmark_loop_empty [OF lt, of env tf timeout flags st] by simp
    then show ?thesis using Suc.prems by simp
  next
    case False
    note step = benchmark_loop_step [OF lt False, of env tf timeout flags st]
    show ?thesis
    proof (cases "benchmark_sequence env tf flags (k mod length inOutData)
               (inOutData ! (k mod length inOutData)) 0
               (st\<lparr>mTfliteInterpreter := snd (resetStates env (mTfliteInterpreter st))\<rparr>)")
      case (Inl e')
      then have "e' = e" using Suc.prems step by simp
      then show ?thesis using benchmark_sequence_Inl Inl by blast
    next
      case (Inr res)
      obtain ok st1 where res: "res = (ok, st1)" by (cases res)
      have "n = nat (maxc - int (Suc k))" using Suc.hyps(2) by simp
      then show ?thesis using Suc.hyps(1) [of "Suc k" st1] Suc.prems step Inr res
        by (cases ok) (simp_all split: if_splits)
    qed
  qed
qed

lemma benchmark_no_null_call:
  assumes "ATrace_beginSection tf \<noteq> nullptr" and "ATrace_endSection tf \<noteq> nullptr"
  shows "benchmark env tf inOutData maxc timeout flags st \<noteq> Inl (Undefined NullFunctionPointerCall)"
proof
  assume a: "benchmark env tf inOutData maxc timeout flags st
      = Inl (Undefined NullFunctionPointerCall)"
  have "benchmark_loop env tf inOutData maxc timeout flags 0 (st\<lparr>inferenceTotal := fzero\<rparr>)
      = Inl (Undefined NullFunctionPointerCall)"
    using a by (auto simp: benchmark_def and_then_def FATAL_def split: if_splits sum.splits)
  then obtain s i data st1 where
    "benchmark_entry env tf flags s i data st1 = Inl (Undefined NullFunctionPointerCall)"
    using benchmark_loop_Inl by blast
  then show False using benchmark_entry_Inl_resolved [OF assms] by blast
qed

lemma benchmark_tags:
  assumes "benchmark env tf inOutData maxc timeout flags st = Inr (b, st')"
  shows "\<exists>m j. results st' = results st @ appended st st'
        \<and> map tag (appended st st')
            = map (\<lambda>(s, i). (int s, int i))
                (visited inOutData 0 m @ take j (step_entries inOutData m))
        \<and> (if b then j = 0 \<and> (int m \<le> maxc \<or> m = 0)
                      \<and> (int m < maxc \<longrightarrow> fgt (inferenceTotal st') timeout)
            else int m < maxc \<and> j < length (inOutData ! (m mod length inOutData)))"
proof -
  have "\<exists>m j. results st' = results st @ appended st st'
        \<and> list_all2 (\<lambda>(s, i) r. inputOutputSequenceIndex r = int s \<and> inputOutputIndex r = int i)
             (visited inOutData 0 m @ take j (step_entries inOutData m)) (appended st st')
        \<and> (if b then j = 0 \<and> (int m \<le> maxc \<or> m = 0)
                      \<and> (int m < maxc \<longrightarrow> fgt (inferenceTotal st') timeout)
            else int m < maxc \<and> j < length (inOutData ! (m mod length inOutData)))"
    by (rule benchmark_results
          [where Q = "\<lambda>s i data r. inputOutputSequenceIndex r = int s \<and> inputOutputIndex r = int i",
           OF _ assms])
       (blast dest: benchmark_entry_recorded)
  then obtain m j where mj: "results st' = results st @ appended st st'"
    "list_all2 (\<lambda>(s, i) r. inputOutputSequenceIndex r = int s \<and> inputOutputIndex r = int i)
       (visited inOutData 0 m @ take j (step_entries inOutData m)) (appended st st')"
    "if b then j = 0 \<and> (int m \<le> maxc \<or> m = 0)
                \<and> (int m < maxc \<longrightarrow> fgt (inferenceTotal st') timeout)
     else int m < maxc \<and> j < length (inOutData ! (m mod length inOutData))"
    by blast
  show ?thesis using mj(1,3) tags_of_list_all2 [OF mj(2)] by blast
qed

lemma benchmark_all:
  assumes entry: "\<And>s i data st st'.
      benchmark_entry env tf flags s i data st = Inr (True, st') \<Longrightarrow>
      \<exists>r. results st' = results st @ [r] \<and> P r"
    and run: "benchmark env tf inOutData maxc timeout flags st = Inr (b, st')"
  shows "results st' = results st @ appended st st' \<and> (\<forall>r\<in>set (appended st st'). P r)"
proof -
  have "\<exists>m j. results st' = results st @ appended st st'
        \<and> list_all2 (\<lambda>(s, i) r. P r)
             (visited inOutData 0 m @ take j (step_entries inOutData m)) (appended st st')
        \<and> (if b then j = 0 \<and> (int m \<le> maxc \<or> m = 0)
                      \<and> (int m < maxc \<longrightarrow> fgt (inferenceTotal st') timeout)
            else int m < maxc \<and> j < length (inOutData ! (m mod length inOutData)))"
    by (rule benchmark_results [where Q = "\<lambda>s i data r. P r", OF _ run]) (rule entry)
  then obtain m j where r: "results st' = results st @ appended st st'"
    and l: "list_all2 (\<lambda>(s, i) r. P r)
       (visited inOutData 0 m @ take j (step_entries inOutData m)) (appended st st')"
    by (elim exE conjE)
  have "(\<lambda>(s :: nat, i :: nat) r. P r) = (\<lambda>p r. P r)" by auto
  then show ?thesis using r l all_of_list_all2 [of P _ "appended st st'"] by simp
qed

lemma record_result_ignoring:
  "flags AND FLAG_IGNORE_GOLDEN_OUTPUT \<noteq> 0 \<Longrightarrow>
   record_result ndebug flags s i data t st =
     Inr (st\<lparr>results := results st @
                 [\<lparr>computeTimeSec = t, meanSquareError = fzero, maxSingleError = fzero,
                   inferenceOutput =
                     (if flags AND FLAG_DISCARD_INFERENCE_OUTPUT = 0
                      then raw (output_tensor (mTfliteInterpreter st)) else []),
                   inputOutputSequenceIndex = int s, inputOutputIndex = int i\<rparr>],
              inferenceTotal := fadd (inferenceTotal st) t\<rparr>)"
  by (simp add: record_result_def and_then_def Let_def saveInferenceOutput_def)






lemma setInput_unsupported:
  assumes "type (input_tensor interp) \<noteq> kTfLiteFloat32"
    and "type (input_tensor interp) \<noteq> kTfLiteUInt8"
  shows "setInput interp dataPtr = Inr (False, interp)"
  using assms by (cases "type (input_tensor interp)") (simp_all add: setInput_def Let_def)

lemma provide_input_raw:
  "input data = Some dataPtr \<Longrightarrow>
   provide_input data interp
     = and_then (setInput interp dataPtr) (\<lambda>(_, interp). Inr (True, interp))"
  by (simp add: provide_input_def)

lemma provide_input_callback:
  assumes "input data = None"
    and "provide_input data interp = Inr (created, interp')"
  shows "created = fst (createInput data (raw (input_tensor interp)))"
  using assms
  by (auto simp: provide_input_def and_then_Inr Let_def case_prod_beta)

lemma provide_input_callback_fails:
  assumes "input data = None"
    and "\<not> fst (createInput data (raw (input_tensor interp)))"
    and "length (snd (createInput data (raw (input_tensor interp)))) \<le> bytes (input_tensor interp)"
  shows "\<exists>interp'. provide_input data interp = Inr (False, interp')"
  using assms
  by (simp add: provide_input_def memcpy_def and_then_def bytes_def Let_def case_prod_beta)

lemma benchmark_entry_False_cause:
  assumes "benchmark_entry env tf flags s i data st = Inr (False, st')"
  shows "\<exists>created interp. provide_input data (mTfliteInterpreter st) = Inr (created, interp)
           \<and> (\<not> created \<or> \<not> fst (runInference env interp))"
  using assms unfolding benchmark_entry_def
  by (auto simp: and_then_Inr Let_def case_prod_beta currentTimeInUsec_snd split: if_splits)

lemma benchmark_entry_not_created:
  assumes "ATrace_beginSection tf \<noteq> nullptr"
    and "provide_input data (mTfliteInterpreter st) = Inr (False, interp)"
  shows "benchmark_entry env tf flags s i data st = Inr (False, st\<lparr>mTfliteInterpreter := interp\<rparr>)"
  unfolding benchmark_entry_def call_resolved [OF assms(1)] and_then_unit assms(2)
  by (simp add: Let_def)

lemma benchmark_first_entry_False:
  assumes "inOutData \<noteq> []" and "0 < maxc" and "inOutData ! 0 \<noteq> []"
    and "benchmark_entry env tf flags 0 0 (inOutData ! 0 ! 0)
           (st\<lparr>inferenceTotal := fzero,
               mTfliteInterpreter := snd (resetStates env (mTfliteInterpreter st))\<rparr>)
         = Inr (False, st')"
  shows "benchmark env tf inOutData maxc timeout flags st = Inr (False, st')"
proof -
  have "int 0 < maxc" using assms(2) by simp
  note loop = benchmark_loop_step [OF this assms(1), of env tf timeout flags]
  have "0 < length (inOutData ! 0)" using assms(3) by simp
  note seq = benchmark_sequence_step [OF this, of env tf flags 0]
  show ?thesis using assms(1,4) by (simp add: benchmark_def and_then_def loop seq)
qed

lemma singleton_map:
  "length xs = 1 \<Longrightarrow> \<forall>x\<in>set xs. f x = c \<Longrightarrow> map f xs = [c]"
  by (cases xs) auto

subsection \<open>Evaluating the loop on the examples\<close>

lemma f32_million: "f32_of_int 1000000 = Finite False (1000000 * 2 ^ 149)"
  using f32_of_int_small [of 1000000] by simp

lemma f32_one: "f32_of_int 1 = Finite False (1 * 2 ^ 149)"
  using f32_of_int_small [of 1] by simp

lemma f32_two: "f32_of_int 2 = Finite False (2 * 2 ^ 149)"
  using f32_of_int_small [of 2] by simp

lemma zero_elapsed: "fdiv (f32_of_int 0) (f32_of_int 1000000) = fzero"
  unfolding f32_million
  by (simp add: f32_of_int_def fzero_def round_f32_def round_nearest_even_def Let_def)

lemma one_second: "fdiv (f32_of_int 1000000) (f32_of_int 1000000) = f32_of_int 1"
  unfolding f32_million f32_one
  by (simp add: round_f32_def round_nearest_even_def Let_def bit_length.simps)

lemma fadd_zero: "fadd fzero fzero = fzero"
  by (simp add: fzero_def signed_units_def)

lemma fadd_zero_one: "fadd fzero (f32_of_int 1) = f32_of_int 1"
  unfolding f32_one fzero_def
  by (simp add: round_f32_def round_nearest_even_def Let_def bit_length.simps signed_units_def)

lemma fadd_one_one: "fadd (f32_of_int 1) (f32_of_int 1) = f32_of_int 2"
  unfolding f32_one f32_two
  by (simp add: round_f32_def round_nearest_even_def Let_def bit_length.simps signed_units_def)

lemma fgt_two_zero: "fgt (f32_of_int 2) fzero"
  unfolding f32_two fzero_def by (simp add: signed_units_def)

lemma not_fgt_zero: "\<not> fgt fzero fzero"
  by (simp add: fzero_def)

lemmas run_simps =
  benchmark_def FATAL_def benchmark_loop_step benchmark_loop_end benchmark_loop_empty
  benchmark_sequence_step benchmark_sequence_end benchmark_entry_resolved provide_input_def
  setInput_def memcpy_def runInference_def resetStates_def currentTimeInUsec_def
  record_result_def saveInferenceOutput_def and_then_def
  FLAG_IGNORE_GOLDEN_OUTPUT_def FLAG_DISCARD_INFERENCE_OUTPUT_def
  zero_elapsed one_second fadd_zero fadd_zero_one fadd_one_one fgt_two_zero not_fgt_zero
  Let_def mod_Suc
  idle_platform_def ticking_platform_def picky_platform_def resolved_tracing_def
  unresolved_tracing_def byte_state_def int32_state_def raw_entry_def callback_entry_def
  appended_def

lemma reset_idle: "reset (idle_platform nd) byte_state = byte_state"
  by (simp add: idle_platform_def resetStates_def byte_state_def)

subsection \<open>The claims\<close>

text \<open>
  Claim C1. \<^verbatim>\<open>getOutputError\<close> tracks \<^verbatim>\<open>maxSingleError\<close> as a signed maximum, for
  8-bit unsigned and for 32-bit float tensors alike: with one more pair of elements the
  maximum becomes the new error \<open>produced - expected\<close> if that is greater than the
  maximum so far and stays what it was otherwise, and a negative error never changes it.
  For a single element with \<open>produced > expected\<close> the result is exactly
  \<open>produced - expected\<close> (computed in \<^verbatim>\<open>float\<close>; for bytes this is the exact integer
  difference), and with \<open>produced < expected\<close> it stays \<open>0\<close>. This holds with and
  without \<^verbatim>\<open>NDEBUG\<close>.
\<close>

theorem getOutputError_max_is_signed_maximum:
  "(length out = length expected \<longrightarrow>
      (\<exists>r0 r1. getOutputError ndebug (uint8_tensor out) expected r = Inr r0
         \<and> getOutputError ndebug (uint8_tensor (out @ [p])) (expected @ [e]) r = Inr r1
         \<and> maxSingleError r1 =
             (if fgt (fsub (f32_of_uint8 p) (f32_of_uint8 e)) (maxSingleError r0)
              then fsub (f32_of_uint8 p) (f32_of_uint8 e) else maxSingleError r0)
         \<and> (fgt fzero (fsub (f32_of_uint8 p) (f32_of_uint8 e)) \<longrightarrow>
              maxSingleError r1 = maxSingleError r0)))
   \<and> (length fout = length fexpected \<and> 4 dvd length fout
        \<and> floats_of_bytes pb = [x] \<and> floats_of_bytes eb = [y]
        \<and> length pb = 4 \<and> length eb = 4 \<longrightarrow>
      (\<exists>r0 r1. getOutputError ndebug (float32_tensor fout) fexpected r = Inr r0
         \<and> getOutputError ndebug (float32_tensor (fout @ pb)) (fexpected @ eb) r = Inr r1
         \<and> maxSingleError r1 =
             (if fgt (fsub x y) (maxSingleError r0) then fsub x y else maxSingleError r0)
         \<and> (fgt fzero (fsub x y) \<longrightarrow> maxSingleError r1 = maxSingleError r0)))
   \<and> (b < a \<longrightarrow>
      (\<exists>r1. getOutputError ndebug (uint8_tensor [a]) [b] r = Inr r1
         \<and> maxSingleError r1 = f32_of_int (uint a - uint b)))
   \<and> (c < d \<longrightarrow>
      (\<exists>r1. getOutputError ndebug (uint8_tensor [c]) [d] r = Inr r1
         \<and> maxSingleError r1 = fzero))
   \<and> (floats_of_bytes pb = [x] \<and> floats_of_bytes eb = [y]
        \<and> length pb = 4 \<and> length eb = 4 \<and> fgt x y \<longrightarrow>
      (\<exists>r1. getOutputError ndebug (float32_tensor pb) eb r = Inr r1
         \<and> maxSingleError r1 = fsub x y))
   \<and> (floats_of_bytes lb = [v] \<and> floats_of_bytes mb = [w]
        \<and> length lb = 4 \<and> length mb = 4 \<and> fgt w v \<longrightarrow>
      (\<exists>r1. getOutputError ndebug (float32_tensor lb) mb r = Inr r1
         \<and> maxSingleError r1 = fzero))"
proof (intro conjI impI)
  assume len: "length out = length expected"
  let ?f = f32_of_uint8
  have "length (map ?f out) = length (map ?f expected)" using len by simp
  from max_error_snoc [OF this, of "?f p" "?f e"] len
  show "\<exists>r0 r1. getOutputError ndebug (uint8_tensor out) expected r = Inr r0
         \<and> getOutputError ndebug (uint8_tensor (out @ [p])) (expected @ [e]) r = Inr r1
         \<and> maxSingleError r1 =
             (if fgt (fsub (?f p) (?f e)) (maxSingleError r0)
              then fsub (?f p) (?f e) else maxSingleError r0)
         \<and> (fgt fzero (fsub (?f p) (?f e)) \<longrightarrow> maxSingleError r1 = maxSingleError r0)"
    by (simp add: getOutputError_uint8 Let_def)
next
  assume "length fout = length fexpected \<and> 4 dvd length fout
        \<and> floats_of_bytes pb = [x] \<and> floats_of_bytes eb = [y]
        \<and> length pb = 4 \<and> length eb = 4"
  then have len: "length fout = length fexpected" and dvd: "4 dvd length fout"
    "4 dvd length fexpected" and x: "floats_of_bytes pb = [x]" and y: "floats_of_bytes eb = [y]"
    and len4: "length pb = length eb"
    by auto
  have "length (floats_of_bytes fout) = length (floats_of_bytes fexpected)"
    using len by (simp add: length_floats_of_bytes)
  from max_error_snoc [OF this, of x y] len len4
  show "\<exists>r0 r1. getOutputError ndebug (float32_tensor fout) fexpected r = Inr r0
         \<and> getOutputError ndebug (float32_tensor (fout @ pb)) (fexpected @ eb) r = Inr r1
         \<and> maxSingleError r1 =
             (if fgt (fsub x y) (maxSingleError r0) then fsub x y else maxSingleError r0)
         \<and> (fgt fzero (fsub x y) \<longrightarrow> maxSingleError r1 = maxSingleError r0)"
    by (simp add: getOutputError_float32 Let_def floats_of_bytes_append dvd x y)
next
  assume "b < a"
  then have "fgt (f32_of_uint8 a) (f32_of_uint8 b)" by (simp add: fgt_uint8)
  then have "fst (error_loop [(f32_of_uint8 a, f32_of_uint8 b)] (fzero, fzero))
               = f32_of_int (uint a - uint b)"
    by (simp only: single_max_error_greater fsub_uint8_exact)
  then show "\<exists>r1. getOutputError ndebug (uint8_tensor [a]) [b] r = Inr r1
         \<and> maxSingleError r1 = f32_of_int (uint a - uint b)"
    by (simp add: getOutputError_uint8 Let_def del: error_loop.simps)
next
  assume "c < d"
  then have "fgt (f32_of_uint8 d) (f32_of_uint8 c)" by (simp add: fgt_uint8)
  then have "fst (error_loop [(f32_of_uint8 c, f32_of_uint8 d)] (fzero, fzero)) = fzero"
    by (rule single_max_error_less)
  then show "\<exists>r1. getOutputError ndebug (uint8_tensor [c]) [d] r = Inr r1
         \<and> maxSingleError r1 = fzero"
    by (simp add: getOutputError_uint8 Let_def del: error_loop.simps)
next
  assume "floats_of_bytes pb = [x] \<and> floats_of_bytes eb = [y]
        \<and> length pb = 4 \<and> length eb = 4 \<and> fgt x y"
  then have x: "floats_of_bytes pb = [x]" and y: "floats_of_bytes eb = [y]"
    and len: "length pb = length eb" and gt: "fgt x y"
    by simp_all
  have "fst (error_loop [(x, y)] (fzero, fzero)) = fsub x y"
    using gt by (rule single_max_error_greater)
  then show "\<exists>r1. getOutputError ndebug (float32_tensor pb) eb r = Inr r1
         \<and> maxSingleError r1 = fsub x y"
    using len by (simp add: getOutputError_float32 Let_def x y del: error_loop.simps)
next
  assume "floats_of_bytes lb = [v] \<and> floats_of_bytes mb = [w]
        \<and> length lb = 4 \<and> length mb = 4 \<and> fgt w v"
  then have v: "floats_of_bytes lb = [v]" and w: "floats_of_bytes mb = [w]"
    and len: "length lb = length mb" and gt: "fgt w v"
    by simp_all
  have "fst (error_loop [(v, w)] (fzero, fzero)) = fzero"
    using gt by (rule single_max_error_less)
  then show "\<exists>r1. getOutputError ndebug (float32_tensor lb) mb r = Inr r1
         \<and> maxSingleError r1 = fzero"
    using len by (simp add: getOutputError_float32 Let_def v w del: error_loop.simps)
qed

text \<open>
  C1 at concrete tensors, in a build with \<^verbatim>\<open>NDEBUG\<close>. Bytes: after 5 against 3 (error
  2), the pair 2 against 7 leaves the maximum at 2 and the pair 9 against 2 raises it to
  7. Floats: after 2.0 against 1.0 (error 1.0), the pair 3.0 against 1.0 raises the
  maximum to 2.0 and the pair 1.0 against 2.0 leaves it at 1.0. Single elements: 7
  against 2 gives 5, 2 against 7 gives 0, 2.0 against 1.0 gives 1.0, 1.0 against 2.0
  gives 0.
\<close>

theorem getOutputError_max_is_signed_maximum_witness:
  "(\<exists>r0 r1. getOutputError True (uint8_tensor [5]) [3] blank_result = Inr r0
      \<and> getOutputError True (uint8_tensor [5, 2]) [3, 7] blank_result = Inr r1
      \<and> maxSingleError r0 = f32_of_int 2 \<and> maxSingleError r1 = f32_of_int 2)
   \<and> (\<exists>r0 r1. getOutputError True (uint8_tensor [5]) [3] blank_result = Inr r0
      \<and> getOutputError True (uint8_tensor [5, 9]) [3, 2] blank_result = Inr r1
      \<and> maxSingleError r0 = f32_of_int 2 \<and> maxSingleError r1 = f32_of_int 7)
   \<and> (\<exists>r0 r1. getOutputError True (float32_tensor [0, 0, 0, 0x40]) [0, 0, 0x80, 0x3F]
                  blank_result = Inr r0
      \<and> getOutputError True (float32_tensor [0, 0, 0, 0x40, 0, 0, 0x40, 0x40])
                  [0, 0, 0x80, 0x3F, 0, 0, 0x80, 0x3F] blank_result = Inr r1
      \<and> maxSingleError r0 = f32_of_int 1 \<and> maxSingleError r1 = f32_of_int 2)
   \<and> (\<exists>r0 r1. getOutputError True (float32_tensor [0, 0, 0, 0x40]) [0, 0, 0x80, 0x3F]
                  blank_result = Inr r0
      \<and> getOutputError True (float32_tensor [0, 0, 0, 0x40, 0, 0, 0x80, 0x3F])
                  [0, 0, 0x80, 0x3F, 0, 0, 0, 0x40] blank_result = Inr r1
      \<and> maxSingleError r0 = f32_of_int 1 \<and> maxSingleError r1 = f32_of_int 1)
   \<and> (\<exists>r1. getOutputError True (uint8_tensor [7]) [2] blank_result = Inr r1
      \<and> maxSingleError r1 = f32_of_int 5)
   \<and> (\<exists>r1. getOutputError True (uint8_tensor [2]) [7] blank_result = Inr r1
      \<and> maxSingleError r1 = fzero)
   \<and> (\<exists>r1. getOutputError True (float32_tensor [0, 0, 0, 0x40]) [0, 0, 0x80, 0x3F]
               blank_result = Inr r1
      \<and> maxSingleError r1 = f32_of_int 1)
   \<and> (\<exists>r1. getOutputError True (float32_tensor [0, 0, 0x80, 0x3F]) [0, 0, 0, 0x40]
               blank_result = Inr r1
      \<and> maxSingleError r1 = fzero)"
proof -
  let ?one = "[0, 0, 0x80, 0x3F] :: 8 word list"
  let ?two = "[0, 0, 0, 0x40] :: 8 word list"
  let ?three = "[0, 0, 0x40, 0x40] :: 8 word list"
  define f1 where "f1 = f32_of_bytes 0 0 0x80 0x3F"
  define f2 where "f2 = f32_of_bytes 0 0 0 0x40"
  define f3 where "f3 = f32_of_bytes 0 0 0x40 0x40"
  have one: "f1 = Finite False (1 * 2 ^ 149)"
    and two: "f2 = Finite False (2 * 2 ^ 149)"
    and three: "f3 = Finite False (3 * 2 ^ 149)"
    by (simp_all add: f1_def f2_def f3_def f32_of_bytes_def Let_def)
  have bytes: "floats_of_bytes ?one = [f1]" "floats_of_bytes ?two = [f2]"
    "floats_of_bytes ?three = [f3]"
    by (simp_all add: f1_def f2_def f3_def)
  have four: "(4 :: nat) dvd Suc (Suc (Suc (Suc 0)))"
    by (rule dvdI [of _ _ 1]) simp
  have gt21: "fgt f2 f1" unfolding one two fgt_scaled by simp
  have d21: "fsub f2 f1 = f32_of_int 1"
    unfolding one two fsub_scaled by (simp add: f32_of_int_def)
  have d31: "fsub f3 f1 = f32_of_int 2"
    unfolding one three fsub_scaled by (simp add: f32_of_int_def)
  have n12: "fgt fzero (fsub f1 f2)" using gt21 by (rule fgt_fsub_neg)
  have gt_21: "fgt (f32_of_int 2) (f32_of_int 1)" unfolding f32_one f32_two fgt_scaled by simp
  have d52: "fsub (f32_of_uint8 5) (f32_of_uint8 3) = f32_of_int 2"
    and d92: "fsub (f32_of_uint8 9) (f32_of_uint8 2) = f32_of_int 7"
    by (simp_all add: fsub_uint8_exact)
  have n27: "fgt fzero (fsub (f32_of_uint8 2) (f32_of_uint8 7))"
    by (rule fgt_fsub_neg) (simp add: fgt_uint8)
  have gt_72: "fgt (f32_of_int 7) (f32_of_int 2)"
    using fgt_uint8 [of 7 2] by (simp add: f32_of_uint8_def)
  note stays = getOutputError_max_is_signed_maximum
    [where ndebug = True and r = blank_result
       and out = "[5]" and expected = "[3]" and p = 2 and e = 7
       and fout = ?two and fexpected = ?one and pb = ?one and eb = ?two
       and x = f1 and y = f2 and a = 5 and b = 3 and c = 2 and d = 7
       and lb = ?one and mb = ?two and v = f1 and w = f2]
  note moves = getOutputError_max_is_signed_maximum
    [where ndebug = True and r = blank_result
       and out = "[5]" and expected = "[3]" and p = 9 and e = 2
       and fout = ?two and fexpected = ?one and pb = ?three and eb = ?one
       and x = f3 and y = f1 and a = 7 and b = 2 and c = 2 and d = 7
       and lb = ?one and mb = ?two and v = f1 and w = f2]
  note single = getOutputError_max_is_signed_maximum
    [where ndebug = True and r = blank_result
       and out = "[]" and expected = "[]" and p = 0 and e = 0
       and fout = "[]" and fexpected = "[]" and pb = ?two and eb = ?one
       and x = f2 and y = f1 and a = 7 and b = 2 and c = 2 and d = 7
       and lb = ?one and mb = ?two and v = f1 and w = f2]
  obtain b0 where b0: "getOutputError True (uint8_tensor [5]) [3] blank_result = Inr b0"
    "maxSingleError b0 = f32_of_int 2"
    using stays by auto
  obtain g0 where g0: "getOutputError True (float32_tensor ?two) ?one blank_result = Inr g0"
    "maxSingleError g0 = f32_of_int 1"
    using single bytes gt21 d21 by auto
  have byte_stays: "\<exists>r0 r1. getOutputError True (uint8_tensor [5]) [3] blank_result = Inr r0
      \<and> getOutputError True (uint8_tensor [5, 2]) [3, 7] blank_result = Inr r1
      \<and> maxSingleError r0 = f32_of_int 2 \<and> maxSingleError r1 = f32_of_int 2"
    using stays [THEN conjunct1] b0 n27 by auto
  have byte_moves: "\<exists>r0 r1. getOutputError True (uint8_tensor [5]) [3] blank_result = Inr r0
      \<and> getOutputError True (uint8_tensor [5, 9]) [3, 2] blank_result = Inr r1
      \<and> maxSingleError r0 = f32_of_int 2 \<and> maxSingleError r1 = f32_of_int 7"
    using moves [THEN conjunct1] b0 d92 gt_72 by auto
  have float_moves: "\<exists>r0 r1. getOutputError True (float32_tensor ?two) ?one blank_result = Inr r0
      \<and> getOutputError True (float32_tensor (?two @ ?three)) (?one @ ?one) blank_result = Inr r1
      \<and> maxSingleError r0 = f32_of_int 1 \<and> maxSingleError r1 = f32_of_int 2"
    using moves [THEN conjunct2, THEN conjunct1] bytes g0 d31 gt_21 four by auto
  have float_stays: "\<exists>r0 r1. getOutputError True (float32_tensor ?two) ?one blank_result = Inr r0
      \<and> getOutputError True (float32_tensor (?two @ ?one)) (?one @ ?two) blank_result = Inr r1
      \<and> maxSingleError r0 = f32_of_int 1 \<and> maxSingleError r1 = f32_of_int 1"
    using stays [THEN conjunct2, THEN conjunct1] bytes g0 n12 four by auto
  have byte_greater: "\<exists>r1. getOutputError True (uint8_tensor [7]) [2] blank_result = Inr r1
      \<and> maxSingleError r1 = f32_of_int 5"
    using single by simp
  have byte_less: "\<exists>r1. getOutputError True (uint8_tensor [2]) [7] blank_result = Inr r1
      \<and> maxSingleError r1 = fzero"
    using single by simp
  have float_greater: "\<exists>r1. getOutputError True (float32_tensor ?two) ?one blank_result = Inr r1
      \<and> maxSingleError r1 = f32_of_int 1"
    using g0 by blast
  have float_less: "\<exists>r1. getOutputError True (float32_tensor ?one) ?two blank_result = Inr r1
      \<and> maxSingleError r1 = fzero"
    using single bytes gt21 by simp
  show ?thesis
    using byte_stays byte_moves float_moves float_stays byte_greater byte_less
      float_greater float_less
    by simp
qed

text \<open>
  Claim C2, as stated, fails. When \<^verbatim>\<open>libandroid.so\<close> cannot be opened,
  \<^verbatim>\<open>setupTraceFunc\<close> ends in \<^verbatim>\<open>FATAL\<close>, a failed assertion unless \<^verbatim>\<open>NDEBUG\<close> is
  defined. With \<^verbatim>\<open>NDEBUG\<close>, or when the library lacks the two symbols, both function
  pointers of \<^verbatim>\<open>kTraceFunc\<close> are null, and \<^verbatim>\<open>benchmark\<close> calls through them at its
  first entry.
\<close>

theorem setupTraceFunc_unavailable_counterexample:
  "setupTraceFunc False loader_without_libandroid = Inl (AssertionFailed UnableToOpenLibandroid)
   \<and> setupTraceFunc True loader_without_libandroid = Inr unresolved_tracing
   \<and> setupTraceFunc False loader_without_symbols = Inr unresolved_tracing
   \<and> benchmark (idle_platform False) unresolved_tracing [[raw_entry 1 1]] 1 fzero 3 byte_state
       = Inl (Undefined NullFunctionPointerCall)
   \<and> benchmark (idle_platform True) unresolved_tracing [[raw_entry 1 1]] 1 fzero 3 byte_state
       = Inl (Undefined NullFunctionPointerCall)"
  by (simp add: setupTraceFunc_def loader_without_libandroid_def loader_without_symbols_def
        dlsym_def unresolved_tracing_def benchmark_def benchmark_loop_step
        benchmark_sequence_step benchmark_entry_def and_then_def FATAL_def)

text \<open>
  Claim C2, amended. Tracing has no fallback. When \<^verbatim>\<open>libandroid.so\<close> cannot be
  opened, \<^verbatim>\<open>setupTraceFunc\<close> in a build with assertions ends in the failed assertion of
  \<^verbatim>\<open>FATAL\<close>. When the library is opened and exports both \<^verbatim>\<open>ATrace_beginSection\<close> and
  \<^verbatim>\<open>ATrace_endSection\<close>, both pointers of \<^verbatim>\<open>kTraceFunc\<close> can be called, and no run of
  \<^verbatim>\<open>benchmark\<close> calls through a null function pointer.
\<close>

theorem setupTraceFunc_fatal_or_resolved:
  "(\<not> ndebug \<and> dlopen missing ''libandroid.so'' = None \<longrightarrow>
      setupTraceFunc ndebug missing = Inl (AssertionFailed UnableToOpenLibandroid))
   \<and> (dlopen present ''libandroid.so'' = Some lib \<and> ''ATrace_beginSection'' \<in> set lib
        \<and> ''ATrace_endSection'' \<in> set lib \<longrightarrow>
      (\<exists>kTraceFunc. setupTraceFunc ndebug present = Inr kTraceFunc
         \<and> call (ATrace_beginSection kTraceFunc) = Inr ()
         \<and> call (ATrace_endSection kTraceFunc) = Inr ()
         \<and> benchmark env kTraceFunc inOutData seqInferencesMaxCount timeout flags st
             \<noteq> Inl (Undefined NullFunctionPointerCall)))"
proof (intro conjI impI)
  assume "\<not> ndebug \<and> dlopen missing ''libandroid.so'' = None"
  then show "setupTraceFunc ndebug missing = Inl (AssertionFailed UnableToOpenLibandroid)"
    by (simp add: setupTraceFunc_def FATAL_def and_then_def)
next
  assume "dlopen present ''libandroid.so'' = Some lib \<and> ''ATrace_beginSection'' \<in> set lib
        \<and> ''ATrace_endSection'' \<in> set lib"
  then have tf: "setupTraceFunc ndebug present = Inr resolved_tracing"
    by (simp add: setupTraceFunc_def dlsym_def resolved_tracing_def and_then_def)
  have "benchmark env resolved_tracing inOutData seqInferencesMaxCount timeout flags st
             \<noteq> Inl (Undefined NullFunctionPointerCall)"
    by (rule benchmark_no_null_call) (simp_all add: resolved_tracing_def)
  moreover have "call (ATrace_beginSection resolved_tracing) = Inr ()"
    "call (ATrace_endSection resolved_tracing) = Inr ()"
    by (simp_all add: resolved_tracing_def)
  ultimately show "\<exists>kTraceFunc. setupTraceFunc ndebug present = Inr kTraceFunc
         \<and> call (ATrace_beginSection kTraceFunc) = Inr ()
         \<and> call (ATrace_endSection kTraceFunc) = Inr ()
         \<and> benchmark env kTraceFunc inOutData seqInferencesMaxCount timeout flags st
             \<noteq> Inl (Undefined NullFunctionPointerCall)"
    using tf by blast
qed

text \<open>
  The amended C2 at a loader without the library, and at one whose library exports both
  symbols, followed by a run of one entry.
\<close>

theorem setupTraceFunc_fatal_or_resolved_witness:
  "setupTraceFunc False loader_without_libandroid = Inl (AssertionFailed UnableToOpenLibandroid)
   \<and> (\<exists>kTraceFunc. setupTraceFunc False loader_with_tracing = Inr kTraceFunc
         \<and> call (ATrace_beginSection kTraceFunc) = Inr ()
         \<and> call (ATrace_endSection kTraceFunc) = Inr ()
         \<and> benchmark (idle_platform False) kTraceFunc [[raw_entry 1 1]] 1 fzero 3 byte_state
             \<noteq> Inl (Undefined NullFunctionPointerCall))"
  using setupTraceFunc_fatal_or_resolved [of False loader_without_libandroid loader_with_tracing
      "[''ATrace_beginSection'', ''ATrace_endSection'']" "idle_platform False"
      "[[raw_entry 1 1]]" 1 fzero 3 byte_state]
  by (simp add: loader_without_libandroid_def loader_with_tracing_def)

text \<open>
  Claim C3. \<^verbatim>\<open>benchmark\<close> compares \<^verbatim>\<open>inferenceTotal\<close> with \<^verbatim>\<open>timeout\<close> only between
  sequences. A run that returns \<^verbatim>\<open>true\<close> has appended the results of \<open>m\<close> whole
  sequences, never a part of one, where \<open>m\<close> is at most \<^verbatim>\<open>seqInferencesMaxCount\<close> (or
  0), and if it stopped before \<^verbatim>\<open>seqInferencesMaxCount\<close> steps then the total exceeds
  the timeout. For a non-empty \<^verbatim>\<open>inOutData\<close>, once the sequence of step \<open>k\<close> has
  finished in state \<open>st2\<close>, the run returns \<^verbatim>\<open>true\<close> with that very state if the total
  exceeds the timeout, and goes on with step \<open>k + 1\<close> otherwise.
\<close>

theorem benchmark_timeout_between_sequences:
  "(benchmark env kTraceFunc inOutData seqInferencesMaxCount timeout flags st = Inr (True, st') \<longrightarrow>
      (\<exists>m. results st' = results st @ appended st st'
         \<and> map tag (appended st st') = map (\<lambda>(s, i). (int s, int i)) (visited inOutData 0 m)
         \<and> (int m \<le> seqInferencesMaxCount \<or> m = 0)
         \<and> (int m < seqInferencesMaxCount \<longrightarrow> fgt (inferenceTotal st') timeout)))
   \<and> (inOutData \<noteq> [] \<and> int k < seqInferencesMaxCount
        \<and> benchmark_sequence env kTraceFunc flags (k mod length inOutData)
             (inOutData ! (k mod length inOutData)) 0 (reset env st1) = Inr (True, st2) \<longrightarrow>
      benchmark_loop env kTraceFunc inOutData seqInferencesMaxCount timeout flags k st1 =
        (if fgt (inferenceTotal st2) timeout then Inr (True, st2)
         else benchmark_loop env kTraceFunc inOutData seqInferencesMaxCount timeout flags
                (Suc k) st2))"
proof (intro conjI impI)
  assume "benchmark env kTraceFunc inOutData seqInferencesMaxCount timeout flags st
            = Inr (True, st')"
  from benchmark_tags [OF this]
  show "\<exists>m. results st' = results st @ appended st st'
         \<and> map tag (appended st st') = map (\<lambda>(s, i). (int s, int i)) (visited inOutData 0 m)
         \<and> (int m \<le> seqInferencesMaxCount \<or> m = 0)
         \<and> (int m < seqInferencesMaxCount \<longrightarrow> fgt (inferenceTotal st') timeout)"
    by auto
next
  assume "inOutData \<noteq> [] \<and> int k < seqInferencesMaxCount
        \<and> benchmark_sequence env kTraceFunc flags (k mod length inOutData)
             (inOutData ! (k mod length inOutData)) 0 (reset env st1) = Inr (True, st2)"
  then show "benchmark_loop env kTraceFunc inOutData seqInferencesMaxCount timeout flags k st1 =
        (if fgt (inferenceTotal st2) timeout then Inr (True, st2)
         else benchmark_loop env kTraceFunc inOutData seqInferencesMaxCount timeout flags
                (Suc k) st2)"
    by (simp add: benchmark_loop_step)
qed

text \<open>
  C3 on a clock that advances by a second with every reading: with a timeout of 0 and up
  to five steps over two sequences, the run returns \<^verbatim>\<open>true\<close> after the two entries of
  the first sequence, not after the first entry. On a clock that stands still the total
  stays 0, which does not exceed the timeout, and after the first sequence the run goes
  on with step 1.
\<close>

theorem benchmark_timeout_between_sequences_witness:
  "(\<exists>st'. benchmark (ticking_platform True) resolved_tracing
            [[raw_entry 1 1, raw_entry 2 2], [raw_entry 3 3]] 5 fzero 3 byte_state
          = Inr (True, st')
       \<and> fgt (inferenceTotal st') fzero
       \<and> map tag (appended byte_state st') = [(0, 0), (0, 1)]
       \<and> (\<exists>m. map tag (appended byte_state st')
                 = map (\<lambda>(s, i). (int s, int i))
                     (visited [[raw_entry 1 1, raw_entry 2 2], [raw_entry 3 3]] 0 m))
       \<and> benchmark_loop (ticking_platform True) resolved_tracing
            [[raw_entry 1 1, raw_entry 2 2], [raw_entry 3 3]] 5 fzero 3 0
            (byte_state\<lparr>inferenceTotal := fzero\<rparr>)
          = Inr (True, st'))
   \<and> (\<exists>st2. benchmark_sequence (idle_platform True) resolved_tracing 3 0
                [raw_entry 1 1, raw_entry 2 2] 0 byte_state
              = Inr (True, st2)
       \<and> \<not> fgt (inferenceTotal st2) fzero
       \<and> benchmark_loop (idle_platform True) resolved_tracing
            [[raw_entry 1 1, raw_entry 2 2], [raw_entry 3 3]] 5 fzero 3 0 byte_state
          = benchmark_loop (idle_platform True) resolved_tracing
              [[raw_entry 1 1, raw_entry 2 2], [raw_entry 3 3]] 5 fzero 3 (Suc 0) st2)"
proof -
  let ?data = "[[raw_entry 1 1, raw_entry 2 2], [raw_entry 3 3]]"
  let ?env = "ticking_platform True"
  let ?idle = "idle_platform True"
  obtain st' where run: "benchmark ?env resolved_tracing ?data 5 fzero 3 byte_state
      = Inr (True, st')"
    and total: "fgt (inferenceTotal st') fzero"
    and tags: "map tag (appended byte_state st') = [(0, 0), (0, 1)]"
    and seq: "benchmark_sequence ?env resolved_tracing 3 (0 mod length ?data)
        (?data ! (0 mod length ?data)) 0
        (reset ?env (byte_state\<lparr>inferenceTotal := fzero\<rparr>)) = Inr (True, st')"
    by (simp add: run_simps)
  note inst = benchmark_timeout_between_sequences
    [of ?env resolved_tracing ?data 5 fzero 3 byte_state st' 0
        "byte_state\<lparr>inferenceTotal := fzero\<rparr>" st']
  have whole: "\<exists>m. map tag (appended byte_state st')
                 = map (\<lambda>(s, i). (int s, int i)) (visited ?data 0 m)"
    using inst run by blast
  have stop: "benchmark_loop ?env resolved_tracing ?data 5 fzero 3 0
      (byte_state\<lparr>inferenceTotal := fzero\<rparr>) = Inr (True, st')"
    using inst seq total by simp
  have stops: "\<exists>st'. benchmark ?env resolved_tracing ?data 5 fzero 3 byte_state
          = Inr (True, st')
       \<and> fgt (inferenceTotal st') fzero
       \<and> map tag (appended byte_state st') = [(0, 0), (0, 1)]
       \<and> (\<exists>m. map tag (appended byte_state st')
                 = map (\<lambda>(s, i). (int s, int i)) (visited ?data 0 m))
       \<and> benchmark_loop ?env resolved_tracing ?data 5 fzero 3 0
            (byte_state\<lparr>inferenceTotal := fzero\<rparr>)
          = Inr (True, st')"
    by (rule exI [of _ st'], intro conjI) (fact run total tags whole stop)+
  have "\<exists>st2. benchmark_sequence ?idle resolved_tracing 3 0 [raw_entry 1 1, raw_entry 2 2] 0
        byte_state = Inr (True, st2)
      \<and> inferenceTotal st2 = fzero"
    by (simp add: run_simps)
  then obtain st2 where seq2: "benchmark_sequence ?idle resolved_tracing 3 0
      [raw_entry 1 1, raw_entry 2 2] 0 byte_state = Inr (True, st2)"
    and total2: "inferenceTotal st2 = fzero"
    by (elim exE conjE)
  have below: "\<not> fgt (inferenceTotal st2) fzero"
    by (simp add: total2 not_fgt_zero)
  have "benchmark_sequence ?idle resolved_tracing 3 (0 mod length ?data)
      (?data ! (0 mod length ?data)) 0 (reset ?idle byte_state) = Inr (True, st2)"
    using seq2 by (simp add: reset_idle)
  then have "benchmark_loop ?idle resolved_tracing ?data 5 fzero 3 0 byte_state
      = (if fgt (inferenceTotal st2) fzero then Inr (True, st2)
         else benchmark_loop ?idle resolved_tracing ?data 5 fzero 3 (Suc 0) st2)"
    using benchmark_timeout_between_sequences
      [of ?idle resolved_tracing ?data 5 fzero 3 byte_state st' 0 byte_state st2,
       THEN conjunct2]
    by simp
  then have goes_on: "benchmark_loop ?idle resolved_tracing ?data 5 fzero 3 0 byte_state
      = benchmark_loop ?idle resolved_tracing ?data 5 fzero 3 (Suc 0) st2"
    using below by simp
  have continues: "\<exists>st2. benchmark_sequence ?idle resolved_tracing 3 0
        [raw_entry 1 1, raw_entry 2 2] 0 byte_state = Inr (True, st2)
      \<and> \<not> fgt (inferenceTotal st2) fzero
      \<and> benchmark_loop ?idle resolved_tracing ?data 5 fzero 3 0 byte_state
          = benchmark_loop ?idle resolved_tracing ?data 5 fzero 3 (Suc 0) st2"
    by (rule exI [of _ st2], intro conjI) (fact seq2 below goes_on)+
  show ?thesis
    by (intro conjI) (fact stops continues)+
qed

text \<open>
  Claim C4. Outer step \<open>k\<close> of \<^verbatim>\<open>benchmark\<close> runs the sequence at position
  \<open>k mod inOutData.size()\<close>, and every result of that step carries that remainder, not
  \<open>k\<close>, as its \<^verbatim>\<open>inputOutputSequenceIndex\<close>: the results a run appends are tagged, in
  order, with the entries of steps \<open>0, \<dots>, m - 1\<close> and of a first part of step \<open>m\<close>,
  where the entries of step \<open>k\<close> are the pairs (\<open>k mod inOutData.size()\<close>, \<open>i\<close>).
\<close>

theorem benchmark_round_robin_index:
  "(benchmark env kTraceFunc inOutData seqInferencesMaxCount timeout flags st = Inr (b, st') \<longrightarrow>
      (\<exists>m j. results st' = results st @ appended st st'
         \<and> map tag (appended st st')
             = map (\<lambda>(s, i). (int s, int i))
                 (visited inOutData 0 m @ take j (step_entries inOutData m))))
   \<and> step_entries inOutData k
       = map (\<lambda>i. (k mod length inOutData, i)) [0..<length (inOutData ! (k mod length inOutData))]
   \<and> (inOutData \<noteq> [] \<and> int k < seqInferencesMaxCount \<longrightarrow>
      benchmark_loop env kTraceFunc inOutData seqInferencesMaxCount timeout flags k st1 =
        (case benchmark_sequence env kTraceFunc flags (k mod length inOutData)
                (inOutData ! (k mod length inOutData)) 0 (reset env st1) of
           Inl e \<Rightarrow> Inl e
         | Inr (False, st2) \<Rightarrow> Inr (False, st2)
         | Inr (True, st2) \<Rightarrow>
             if fgt (inferenceTotal st2) timeout then Inr (True, st2)
             else benchmark_loop env kTraceFunc inOutData seqInferencesMaxCount timeout flags
                    (Suc k) st2))"
proof (intro conjI impI)
  assume "benchmark env kTraceFunc inOutData seqInferencesMaxCount timeout flags st
            = Inr (b, st')"
  from benchmark_tags [OF this]
  show "\<exists>m j. results st' = results st @ appended st st'
         \<and> map tag (appended st st')
             = map (\<lambda>(s, i). (int s, int i))
                 (visited inOutData 0 m @ take j (step_entries inOutData m))"
    by blast
next
  show "step_entries inOutData k
       = map (\<lambda>i. (k mod length inOutData, i)) [0..<length (inOutData ! (k mod length inOutData))]"
    by (simp add: step_entries_def Let_def)
next
  assume "inOutData \<noteq> [] \<and> int k < seqInferencesMaxCount"
  then have "int k < seqInferencesMaxCount" "inOutData \<noteq> []" by simp_all
  then show "benchmark_loop env kTraceFunc inOutData seqInferencesMaxCount timeout flags k st1 =
        (case benchmark_sequence env kTraceFunc flags (k mod length inOutData)
                (inOutData ! (k mod length inOutData)) 0 (reset env st1) of
           Inl e \<Rightarrow> Inl e
         | Inr (False, st2) \<Rightarrow> Inr (False, st2)
         | Inr (True, st2) \<Rightarrow>
             if fgt (inferenceTotal st2) timeout then Inr (True, st2)
             else benchmark_loop env kTraceFunc inOutData seqInferencesMaxCount timeout flags
                    (Suc k) st2)"
    by (rule benchmark_loop_step)
qed

text \<open>
  C4 with five steps over two sequences of lengths 2 and 3: steps 0, 2 and 4 are tagged
  with sequence 0, steps 1 and 3 with sequence 1; step 3, taken alone, runs the second
  sequence, tags its three results with 1 and goes on with step 4.
\<close>

theorem benchmark_round_robin_index_witness:
  "(\<exists>st'. benchmark (idle_platform True) resolved_tracing
            [[raw_entry 1 1, raw_entry 2 2], [raw_entry 3 3, raw_entry 4 4, raw_entry 5 5]]
            5 fzero 3 byte_state
          = Inr (True, st')
       \<and> map tag (appended byte_state st')
           = [(0, 0), (0, 1), (1, 0), (1, 1), (1, 2), (0, 0), (0, 1), (1, 0), (1, 1), (1, 2),
              (0, 0), (0, 1)]
       \<and> (\<exists>m j. map tag (appended byte_state st')
                 = map (\<lambda>(s, i). (int s, int i))
                     (visited [[raw_entry 1 1, raw_entry 2 2],
                               [raw_entry 3 3, raw_entry 4 4, raw_entry 5 5]] 0 m
                      @ take j (step_entries [[raw_entry 1 1, raw_entry 2 2],
                               [raw_entry 3 3, raw_entry 4 4, raw_entry 5 5]] m))))
   \<and> step_entries [[raw_entry 1 1, raw_entry 2 2],
                    [raw_entry 3 3, raw_entry 4 4, raw_entry 5 5]] 3
       = [(1, 0), (1, 1), (1, 2)]
   \<and> step_entries [[raw_entry 1 1, raw_entry 2 2],
                    [raw_entry 3 3, raw_entry 4 4, raw_entry 5 5]] 4
       = [(0, 0), (0, 1)]
   \<and> (\<exists>st2. benchmark_sequence (idle_platform True) resolved_tracing 3 1
                [raw_entry 3 3, raw_entry 4 4, raw_entry 5 5] 0 byte_state
              = Inr (True, st2)
       \<and> map tag (results st2) = [(1, 0), (1, 1), (1, 2)]
       \<and> benchmark_loop (idle_platform True) resolved_tracing
            [[raw_entry 1 1, raw_entry 2 2], [raw_entry 3 3, raw_entry 4 4, raw_entry 5 5]]
            5 fzero 3 3 byte_state
          = benchmark_loop (idle_platform True) resolved_tracing
              [[raw_entry 1 1, raw_entry 2 2], [raw_entry 3 3, raw_entry 4 4, raw_entry 5 5]]
              5 fzero 3 4 st2)"
proof -
  let ?data = "[[raw_entry 1 1, raw_entry 2 2], [raw_entry 3 3, raw_entry 4 4, raw_entry 5 5]]"
  let ?env = "idle_platform True"
  obtain st' where run: "benchmark ?env resolved_tracing ?data 5 fzero 3 byte_state
      = Inr (True, st')"
    and tags: "map tag (appended byte_state st')
           = [(0, 0), (0, 1), (1, 0), (1, 1), (1, 2), (0, 0), (0, 1), (1, 0), (1, 1), (1, 2),
              (0, 0), (0, 1)]"
    by (simp add: run_simps)
  note inst = benchmark_round_robin_index
    [of ?env resolved_tracing ?data 5 fzero 3 byte_state True st' 3 byte_state]
  note inst4 = benchmark_round_robin_index
    [of ?env resolved_tracing ?data 5 fzero 3 byte_state True st' 4 byte_state]
  have visits: "\<exists>m j. map tag (appended byte_state st')
                 = map (\<lambda>(s, i). (int s, int i))
                     (visited ?data 0 m @ take j (step_entries ?data m))"
    using inst run by blast
  have whole: "\<exists>st'. benchmark ?env resolved_tracing ?data 5 fzero 3 byte_state
          = Inr (True, st')
       \<and> map tag (appended byte_state st')
           = [(0, 0), (0, 1), (1, 0), (1, 1), (1, 2), (0, 0), (0, 1), (1, 0), (1, 1), (1, 2),
              (0, 0), (0, 1)]
       \<and> (\<exists>m j. map tag (appended byte_state st')
                 = map (\<lambda>(s, i). (int s, int i))
                     (visited ?data 0 m @ take j (step_entries ?data m)))"
    by (rule exI [of _ st'], intro conjI) (fact run tags visits)+
  have "step_entries ?data 3 = map (\<lambda>i. (3 mod length ?data, i))
      [0..<length (?data ! (3 mod length ?data))]"
    using inst by blast
  then have odd_step: "step_entries ?data 3 = [(1, 0), (1, 1), (1, 2)]"
    by (simp add: upt_rec eval_nat_numeral mod_Suc)
  have "step_entries ?data 4 = map (\<lambda>i. (4 mod length ?data, i))
      [0..<length (?data ! (4 mod length ?data))]"
    using inst4 by blast
  then have even_step: "step_entries ?data 4 = [(0, 0), (0, 1)]"
    by (simp add: upt_rec eval_nat_numeral mod_Suc)
  have "\<exists>st2. benchmark_sequence ?env resolved_tracing 3 1
        [raw_entry 3 3, raw_entry 4 4, raw_entry 5 5] 0 byte_state = Inr (True, st2)
      \<and> map tag (results st2) = [(1, 0), (1, 1), (1, 2)]
      \<and> inferenceTotal st2 = fzero"
    by (simp add: run_simps)
  then obtain st2 where seq: "benchmark_sequence ?env resolved_tracing 3 1
      [raw_entry 3 3, raw_entry 4 4, raw_entry 5 5] 0 byte_state = Inr (True, st2)"
    and tags2: "map tag (results st2) = [(1, 0), (1, 1), (1, 2)]"
    and total2: "inferenceTotal st2 = fzero"
    by (elim exE conjE)
  have sel: "3 mod length ?data = 1" "?data ! 1 = [raw_entry 3 3, raw_entry 4 4, raw_entry 5 5]"
    by (simp_all add: eval_nat_numeral mod_Suc)
  have "benchmark_loop ?env resolved_tracing ?data 5 fzero 3 3 byte_state
      = (case benchmark_sequence ?env resolved_tracing 3 (3 mod length ?data)
                (?data ! (3 mod length ?data)) 0 (reset ?env byte_state) of
           Inl e \<Rightarrow> Inl e
         | Inr (False, st2) \<Rightarrow> Inr (False, st2)
         | Inr (True, st2) \<Rightarrow>
             if fgt (inferenceTotal st2) fzero then Inr (True, st2)
             else benchmark_loop ?env resolved_tracing ?data 5 fzero 3 (Suc 3) st2)"
    using inst [THEN conjunct2, THEN conjunct2] by simp
  then have step: "benchmark_loop ?env resolved_tracing ?data 5 fzero 3 3 byte_state
      = benchmark_loop ?env resolved_tracing ?data 5 fzero 3 4 st2"
    unfolding sel reset_idle seq by (simp add: total2 not_fgt_zero)
  have odd_run: "\<exists>st2. benchmark_sequence ?env resolved_tracing 3 1
        [raw_entry 3 3, raw_entry 4 4, raw_entry 5 5] 0 byte_state = Inr (True, st2)
      \<and> map tag (results st2) = [(1, 0), (1, 1), (1, 2)]
      \<and> benchmark_loop ?env resolved_tracing ?data 5 fzero 3 3 byte_state
          = benchmark_loop ?env resolved_tracing ?data 5 fzero 3 4 st2"
    by (rule exI [of _ st2], intro conjI) (fact seq tags2 step)+
  show ?thesis
    by (intro conjI) (fact whole odd_step even_step odd_run)+
qed



text \<open>
  Claim C6, as stated, fails: \<^verbatim>\<open>FATAL\<close> is a log line and \<^verbatim>\<open>assert(false)\<close>, and in a
  build with \<^verbatim>\<open>NDEBUG\<close> the assertion is compiled out, so \<^verbatim>\<open>getOutputError\<close> carries
  on after it. On an output tensor of 32-bit integers it then returns with
  \<^verbatim>\<open>meanSquareError\<close> = 0/0, a NaN, and \<^verbatim>\<open>maxSingleError\<close> = 0; on a one-byte tensor
  holding 9 against the three expected bytes 4, 1, 7 it returns the error of the first
  byte, 25 and 5.
\<close>

theorem getOutputError_fatal_counterexample:
  "getOutputError True \<lparr>type = kTfLiteInt32, raw = [1, 2, 3, 4]\<rparr> [1, 2, 3, 4] blank_result
     = Inr (blank_result\<lparr>meanSquareError := NaN, maxSingleError := fzero\<rparr>)
   \<and> getOutputError True (uint8_tensor [9]) [4, 1, 7] blank_result
     = Inr (blank_result\<lparr>meanSquareError := f32_of_int 25, maxSingleError := f32_of_int 5\<rparr>)"
proof (intro conjI)
  show "getOutputError True \<lparr>type = kTfLiteInt32, raw = [1, 2, 3, 4]\<rparr> [1, 2, 3, 4] blank_result
     = Inr (blank_result\<lparr>meanSquareError := NaN, maxSingleError := fzero\<rparr>)"
    by (simp add: getOutputError_def FATAL_def and_then_def bytes_def fzero_def f32_of_int_def)
next
  have five: "fsub (f32_of_uint8 9) (f32_of_uint8 4) = f32_of_int 5"
    by (simp add: fsub_uint8_exact)
  have f5: "f32_of_int 5 = Finite False (5 * 2 ^ 149)"
    using f32_of_int_small [of 5] by simp
  have f25: "f32_of_int 25 = Finite False (25 * 2 ^ 149)"
    using f32_of_int_small [of 25] by simp
  have gt: "fgt (f32_of_int 5) fzero"
    unfolding f5 fzero_def by (simp add: signed_units_def)
  have sq: "fmul (f32_of_int 5) (f32_of_int 5) = f32_of_int 25"
    unfolding f5 f25
    by (simp add: round_f32_def round_nearest_even_def Let_def bit_length.simps)
  have sum: "fadd fzero (f32_of_int 25) = f32_of_int 25"
    unfolding f25 fzero_def
    by (simp add: round_f32_def round_nearest_even_def Let_def bit_length.simps signed_units_def)
  have mean: "fdiv (f32_of_int 25) (f32_of_int 1) = f32_of_int 25"
    unfolding f25 f32_one
    by (simp add: round_f32_def round_nearest_even_def Let_def bit_length.simps)
  show "getOutputError True (uint8_tensor [9]) [4, 1, 7] blank_result
     = Inr (blank_result\<lparr>meanSquareError := f32_of_int 25, maxSingleError := f32_of_int 5\<rparr>)"
    by (simp add: getOutputError_def FATAL_def and_then_def bytes_def Let_def
          five gt sq sum mean)
qed

text \<open>
  Claim C6, amended. In a build with assertions enabled (\<^verbatim>\<open>NDEBUG\<close> not defined),
  \<^verbatim>\<open>getOutputError\<close> is fatal when the length of the expected data differs from the
  byte length of the output tensor, and likewise when the element type of the output
  tensor is neither 8-bit unsigned integer nor 32-bit float: it ends in the failed
  assertion of \<^verbatim>\<open>FATAL\<close> and yields no result record.
\<close>

theorem getOutputError_fatal_with_assertions:
  "(\<not> ndebug \<and> bytes t \<noteq> length expected_data \<longrightarrow>
      getOutputError ndebug t expected_data r = Inl (AssertionFailed WrongSizeOfOutputTensor))
   \<and> (\<not> ndebug \<and> type t \<noteq> kTfLiteUInt8 \<and> type t \<noteq> kTfLiteFloat32 \<longrightarrow>
      getOutputError ndebug t expected_data r =
        Inl (AssertionFailed (if bytes t \<noteq> length expected_data
                              then WrongSizeOfOutputTensor else OutputTensorTypeNotSupported)))"
  by (cases "type t") (simp_all add: getOutputError_def FATAL_def and_then_def)

text \<open>
  The amended C6 in a build with assertions, at a two-byte tensor against one expected
  byte, and at a tensor of 32-bit integers.
\<close>

theorem getOutputError_fatal_with_assertions_witness:
  "getOutputError False (uint8_tensor [1, 2]) [1] blank_result
     = Inl (AssertionFailed WrongSizeOfOutputTensor)
   \<and> getOutputError False \<lparr>type = kTfLiteInt32, raw = [1, 2, 3, 4]\<rparr> [1, 2, 3, 4] blank_result
     = Inl (AssertionFailed OutputTensorTypeNotSupported)"
  using getOutputError_fatal_with_assertions
          [of False "uint8_tensor [1, 2]" "[1]" blank_result]
    getOutputError_fatal_with_assertions
          [of False "\<lparr>type = kTfLiteInt32, raw = [1, 2, 3, 4]\<rparr>" "[1, 2, 3, 4]" blank_result]
  by (simp add: bytes_def)

text \<open>
  Claim C7. With \<^verbatim>\<open>FLAG_IGNORE_GOLDEN_OUTPUT\<close> set, every result a successful run of
  \<^verbatim>\<open>benchmark\<close> appends has \<^verbatim>\<open>meanSquareError\<close> = 0 and \<^verbatim>\<open>maxSingleError\<close> = 0. The
  error computation is skipped: the record of an entry is built from the time, the two
  zeros, the captured output and the two indices alone, whatever the output tensor and
  the expected data hold, and \<^verbatim>\<open>getOutputError\<close> with its two fatal checks is not
  reached.
\<close>

theorem benchmark_ignore_golden_output:
  "(flags AND FLAG_IGNORE_GOLDEN_OUTPUT \<noteq> 0
      \<and> benchmark env kTraceFunc inOutData seqInferencesMaxCount timeout flags st
          = Inr (True, st') \<longrightarrow>
      results st' = results st @ appended st st'
      \<and> (\<forall>r\<in>set (appended st st'). meanSquareError r = fzero \<and> maxSingleError r = fzero))
   \<and> (flags AND FLAG_IGNORE_GOLDEN_OUTPUT \<noteq> 0 \<longrightarrow>
      record_result ndebug flags s i data t st1 =
        Inr (st1\<lparr>results := results st1 @
                    [\<lparr>computeTimeSec = t, meanSquareError = fzero, maxSingleError = fzero,
                      inferenceOutput =
                        (if flags AND FLAG_DISCARD_INFERENCE_OUTPUT = 0
                         then raw (output_tensor (mTfliteInterpreter st1)) else []),
                      inputOutputSequenceIndex = int s, inputOutputIndex = int i\<rparr>],
                 inferenceTotal := fadd (inferenceTotal st1) t\<rparr>))"
proof (intro conjI impI)
  assume a: "flags AND FLAG_IGNORE_GOLDEN_OUTPUT \<noteq> 0
      \<and> benchmark env kTraceFunc inOutData seqInferencesMaxCount timeout flags st
          = Inr (True, st')"
  then have run: "benchmark env kTraceFunc inOutData seqInferencesMaxCount timeout flags st
          = Inr (True, st')" and flag: "flags AND FLAG_IGNORE_GOLDEN_OUTPUT \<noteq> 0"
    by simp_all
  have "results st' = results st @ appended st st'
      \<and> (\<forall>r\<in>set (appended st st'). meanSquareError r = fzero \<and> maxSingleError r = fzero)"
    by (rule benchmark_all [OF _ run]) (use flag in \<open>blast dest: benchmark_entry_recorded\<close>)
  then show "results st' = results st @ appended st st'"
    "\<forall>r\<in>set (appended st st'). meanSquareError r = fzero \<and> maxSingleError r = fzero"
    by blast+
next
  assume "flags AND FLAG_IGNORE_GOLDEN_OUTPUT \<noteq> 0"
  then show "record_result ndebug flags s i data t st1 =
        Inr (st1\<lparr>results := results st1 @
                    [\<lparr>computeTimeSec = t, meanSquareError = fzero, maxSingleError = fzero,
                      inferenceOutput =
                        (if flags AND FLAG_DISCARD_INFERENCE_OUTPUT = 0
                         then raw (output_tensor (mTfliteInterpreter st1)) else []),
                      inputOutputSequenceIndex = int s, inputOutputIndex = int i\<rparr>],
                 inferenceTotal := fadd (inferenceTotal st1) t\<rparr>)"
    by (rule record_result_ignoring)
qed

text \<open>
  C7 with only \<^verbatim>\<open>FLAG_IGNORE_GOLDEN_OUTPUT\<close> set, on one entry whose expected byte 1
  differs from the output byte 9: both error fields are 0 and the output is captured.
  The record of an entry without expected data, on which \<^verbatim>\<open>getOutputError\<close> would
  fail its assertion, is built all the same.
\<close>

theorem benchmark_ignore_golden_output_witness:
  "(\<exists>st'. benchmark (idle_platform True) resolved_tracing [[raw_entry 1 1]] 1 fzero 2 byte_state
          = Inr (True, st')
       \<and> map (\<lambda>r. (meanSquareError r, maxSingleError r)) (appended byte_state st')
           = [(fzero, fzero)]
       \<and> map inferenceOutput (appended byte_state st') = [[9]])
   \<and> record_result False 2 0 0 ((raw_entry 1 1)\<lparr>output_data := []\<rparr>) fzero byte_state
       = Inr (byte_state\<lparr>results := [blank_result\<lparr>inferenceOutput := [9]\<rparr>]\<rparr>)"
proof -
  let ?env = "idle_platform True"
  obtain st' where run: "benchmark ?env resolved_tracing [[raw_entry 1 1]] 1 fzero 2
      byte_state = Inr (True, st')"
    and one: "length (appended byte_state st') = 1"
    and captured: "map inferenceOutput (appended byte_state st') = [[9]]"
    by (simp add: run_simps)
  have flag: "(2 :: 32 word) AND FLAG_IGNORE_GOLDEN_OUTPUT \<noteq> 0"
    "(2 :: 32 word) AND FLAG_DISCARD_INFERENCE_OUTPUT = 0"
    by (simp_all add: FLAG_IGNORE_GOLDEN_OUTPUT_def FLAG_DISCARD_INFERENCE_OUTPUT_def)
  note inst = benchmark_ignore_golden_output
    [of 2 ?env resolved_tracing "[[raw_entry 1 1]]" 1 fzero byte_state st'
        False 0 0 "(raw_entry 1 1)\<lparr>output_data := []\<rparr>" fzero byte_state]
  have "\<forall>r\<in>set (appended byte_state st'). (meanSquareError r, maxSingleError r) = (fzero, fzero)"
    using inst flag run by simp
  then have zero: "map (\<lambda>r. (meanSquareError r, maxSingleError r)) (appended byte_state st')
      = [(fzero, fzero)]"
    using one by (intro singleton_map)
  have whole: "\<exists>st'. benchmark ?env resolved_tracing [[raw_entry 1 1]] 1 fzero 2 byte_state
          = Inr (True, st')
       \<and> map (\<lambda>r. (meanSquareError r, maxSingleError r)) (appended byte_state st')
           = [(fzero, fzero)]
       \<and> map inferenceOutput (appended byte_state st') = [[9]]"
    by (rule exI [of _ st'], intro conjI) (fact run zero captured)+
  have skipped: "record_result False 2 0 0 ((raw_entry 1 1)\<lparr>output_data := []\<rparr>) fzero
      byte_state = Inr (byte_state\<lparr>results := [blank_result\<lparr>inferenceOutput := [9]\<rparr>]\<rparr>)"
    using inst [THEN conjunct2] flag
    by (simp add: byte_state_def blank_result_def fadd_zero)
  show ?thesis
    by (intro conjI) (fact whole skipped)+
qed

text \<open>
  Claim C8. With \<^verbatim>\<open>FLAG_DISCARD_INFERENCE_OUTPUT\<close> set, every result a successful run
  of \<^verbatim>\<open>benchmark\<close> appends has an empty \<^verbatim>\<open>inferenceOutput\<close>. The flag is independent of
  \<^verbatim>\<open>FLAG_IGNORE_GOLDEN_OUTPUT\<close>: when that one is clear, the error fields of the
  result of an entry are still those \<^verbatim>\<open>getOutputError\<close> computes from the output
  tensor and the entry's expected data.
\<close>

theorem benchmark_discard_inference_output:
  "(flags AND FLAG_DISCARD_INFERENCE_OUTPUT \<noteq> 0
      \<and> benchmark env kTraceFunc inOutData seqInferencesMaxCount timeout flags st
          = Inr (True, st') \<longrightarrow>
      results st' = results st @ appended st st'
      \<and> (\<forall>r\<in>set (appended st st'). inferenceOutput r = []))
   \<and> (flags AND FLAG_DISCARD_INFERENCE_OUTPUT \<noteq> 0 \<and> flags AND FLAG_IGNORE_GOLDEN_OUTPUT = 0
        \<and> benchmark_entry env kTraceFunc flags s i data st1 = Inr (True, st2) \<longrightarrow>
      (\<exists>r r0 r1. results st2 = results st1 @ [r] \<and> inferenceOutput r = []
         \<and> getOutputError (NDEBUG env) (output_tensor (mTfliteInterpreter st2))
               (output_data data) r0 = Inr r1
         \<and> meanSquareError r = meanSquareError r1
         \<and> maxSingleError r = maxSingleError r1))"
proof (intro conjI impI)
  assume a: "flags AND FLAG_DISCARD_INFERENCE_OUTPUT \<noteq> 0
      \<and> benchmark env kTraceFunc inOutData seqInferencesMaxCount timeout flags st
          = Inr (True, st')"
  then have run: "benchmark env kTraceFunc inOutData seqInferencesMaxCount timeout flags st
          = Inr (True, st')" and flag: "flags AND FLAG_DISCARD_INFERENCE_OUTPUT \<noteq> 0"
    by simp_all
  have "results st' = results st @ appended st st'
      \<and> (\<forall>r\<in>set (appended st st'). inferenceOutput r = [])"
    by (rule benchmark_all [OF _ run]) (use flag in \<open>blast dest: benchmark_entry_recorded\<close>)
  then show "results st' = results st @ appended st st'"
    "\<forall>r\<in>set (appended st st'). inferenceOutput r = []"
    by blast+
next
  assume "flags AND FLAG_DISCARD_INFERENCE_OUTPUT \<noteq> 0 \<and> flags AND FLAG_IGNORE_GOLDEN_OUTPUT = 0
        \<and> benchmark_entry env kTraceFunc flags s i data st1 = Inr (True, st2)"
  then show "\<exists>r r0 r1. results st2 = results st1 @ [r] \<and> inferenceOutput r = []
         \<and> getOutputError (NDEBUG env) (output_tensor (mTfliteInterpreter st2))
               (output_data data) r0 = Inr r1
         \<and> meanSquareError r = meanSquareError r1
         \<and> maxSingleError r = maxSingleError r1"
    using benchmark_entry_recorded [of env kTraceFunc flags s i data st1 st2] by blast
qed

text \<open>
  C8 with only \<^verbatim>\<open>FLAG_DISCARD_INFERENCE_OUTPUT\<close> set, on one entry whose expected byte
  is 4 against the output byte 9: no output is captured, and \<^verbatim>\<open>maxSingleError\<close> is 5.
\<close>

theorem benchmark_discard_inference_output_witness:
  "\<exists>st'. benchmark (idle_platform True) resolved_tracing [[raw_entry 1 4]] 1 fzero 1 byte_state
          = Inr (True, st')
       \<and> map inferenceOutput (appended byte_state st') = [[]]
       \<and> map maxSingleError (appended byte_state st') = [f32_of_int 5]"
proof -
  let ?env = "idle_platform True"
  have scored: "getOutputError True (uint8_tensor [9]) [4] r
      = Inr (r\<lparr>meanSquareError :=
                 fdiv (snd (error_loop [(f32_of_uint8 9, f32_of_uint8 4)] (fzero, fzero)))
                   (f32_of_int 1),
               maxSingleError := f32_of_int 5\<rparr>)" for r
  proof -
    have "fgt (f32_of_uint8 9) (f32_of_uint8 4)" by (simp add: fgt_uint8)
    then have "fst (error_loop [(f32_of_uint8 9, f32_of_uint8 4)] (fzero, fzero))
        = f32_of_int 5"
      by (simp only: single_max_error_greater fsub_uint8_exact) simp
    then show ?thesis
      by (simp add: getOutputError_uint8 Let_def del: error_loop.simps)
  qed
  have "\<exists>st'. benchmark ?env resolved_tracing [[raw_entry 1 4]] 1 fzero 1 byte_state
        = Inr (True, st')
      \<and> length (appended byte_state st') = 1
      \<and> benchmark_entry ?env resolved_tracing 1 0 0 (raw_entry 1 4)
          (reset ?env (byte_state\<lparr>inferenceTotal := fzero\<rparr>)) = Inr (True, st')
      \<and> output_tensor (mTfliteInterpreter st') = uint8_tensor [9]
      \<and> results st' = appended byte_state st'"
    by (simp add: run_simps scored del: error_loop.simps)
  then obtain st' where run: "benchmark ?env resolved_tracing [[raw_entry 1 4]] 1 fzero 1
      byte_state = Inr (True, st')"
    and one: "length (appended byte_state st') = 1"
    and entry: "benchmark_entry ?env resolved_tracing 1 0 0 (raw_entry 1 4)
        (reset ?env (byte_state\<lparr>inferenceTotal := fzero\<rparr>)) = Inr (True, st')"
    and tensor: "output_tensor (mTfliteInterpreter st') = uint8_tensor [9]"
    and after: "results st' = appended byte_state st'"
    by (elim exE conjE)
  have expected: "output_data (raw_entry 1 4) = [4]"
    and before: "results (reset ?env (byte_state\<lparr>inferenceTotal := fzero\<rparr>)) = []"
    and build: "NDEBUG ?env = True"
    by (simp_all add: raw_entry_def byte_state_def idle_platform_def)
  have flags: "(1 :: 32 word) AND FLAG_DISCARD_INFERENCE_OUTPUT \<noteq> 0"
    "(1 :: 32 word) AND FLAG_IGNORE_GOLDEN_OUTPUT = 0"
    by (simp_all add: FLAG_DISCARD_INFERENCE_OUTPUT_def FLAG_IGNORE_GOLDEN_OUTPUT_def)
  note inst = benchmark_discard_inference_output
    [of 1 ?env resolved_tracing "[[raw_entry 1 4]]" 1 fzero byte_state st'
        0 0 "raw_entry 1 4" "reset ?env (byte_state\<lparr>inferenceTotal := fzero\<rparr>)" st']
  have "\<forall>r\<in>set (appended byte_state st'). inferenceOutput r = []"
    using inst flags run by simp
  then have empty: "map inferenceOutput (appended byte_state st') = [[]]"
    using one by (intro singleton_map)
  have "\<exists>r r0 r1. results st' = results (reset ?env (byte_state\<lparr>inferenceTotal := fzero\<rparr>)) @ [r]
      \<and> inferenceOutput r = []
      \<and> getOutputError (NDEBUG ?env) (output_tensor (mTfliteInterpreter st'))
            (output_data (raw_entry 1 4)) r0 = Inr r1
      \<and> meanSquareError r = meanSquareError r1
      \<and> maxSingleError r = maxSingleError r1"
    using inst [THEN conjunct2] flags entry by blast
  then obtain r r0 r1 where r: "results st' = [r]"
    "getOutputError True (uint8_tensor [9]) [4] r0 = Inr r1"
    "maxSingleError r = maxSingleError r1"
    unfolding tensor expected before build by auto
  have "maxSingleError r1 = f32_of_int 5" using r(2) scored [of r0] by auto
  then have computed: "map maxSingleError (appended byte_state st') = [f32_of_int 5]"
    using r(1,3) after by simp
  show ?thesis
    by (rule exI [of _ st'], intro conjI) (fact run empty computed)+
qed

text \<open>
  Claim C9. In \<^verbatim>\<open>benchmark\<close> the result of \<^verbatim>\<open>setInput\<close> is dropped. \<^verbatim>\<open>setInput\<close>
  returns \<^verbatim>\<open>false\<close>, leaving the interpreter as it was, when the input tensor is
  neither \<^verbatim>\<open>kTfLiteFloat32\<close> nor \<^verbatim>\<open>kTfLiteUInt8\<close>; whatever it returns, an entry with
  raw input bytes goes on to the inference, and such an entry makes \<^verbatim>\<open>benchmark\<close>
  return \<^verbatim>\<open>false\<close> only when the inference itself fails. An entry without raw input
  whose callback \<^verbatim>\<open>createInput\<close> returns \<^verbatim>\<open>false\<close> (having written no more than the
  buffer holds) makes the body return \<^verbatim>\<open>false\<close> with no result appended; a
  \<^verbatim>\<open>false\<close> from an entry is the result of its sequence and of the run; so a first
  entry whose callback fails makes \<^verbatim>\<open>benchmark\<close> return \<^verbatim>\<open>false\<close> with \<^verbatim>\<open>*results\<close>
  as it was.
\<close>

theorem setInput_result_ignored:
  "(type (input_tensor interp) \<noteq> kTfLiteFloat32 \<and> type (input_tensor interp) \<noteq> kTfLiteUInt8 \<longrightarrow>
      setInput interp dataPtr = Inr (False, interp))
   \<and> (input data = Some dataPtr \<and> setInput interp dataPtr = Inr (ok, interp') \<longrightarrow>
      provide_input data interp = Inr (True, interp'))
   \<and> (input data = Some dataPtr
        \<and> benchmark_entry env kTraceFunc flags s i data st1 = Inr (False, st2) \<longrightarrow>
      (\<exists>ok interp'. setInput (mTfliteInterpreter st1) dataPtr = Inr (ok, interp')
         \<and> \<not> fst (runInference env interp')))
   \<and> (ATrace_beginSection kTraceFunc \<noteq> nullptr \<and> input data = None
        \<and> \<not> fst (createInput data (raw (input_tensor (mTfliteInterpreter st1))))
        \<and> length (snd (createInput data (raw (input_tensor (mTfliteInterpreter st1)))))
            \<le> bytes (input_tensor (mTfliteInterpreter st1)) \<longrightarrow>
      (\<exists>st2. benchmark_entry env kTraceFunc flags s i data st1 = Inr (False, st2)
         \<and> results st2 = results st1))
   \<and> (i < length seq
        \<and> benchmark_entry env kTraceFunc flags s i (seq ! i) st1 = Inr (False, st2) \<longrightarrow>
      benchmark_sequence env kTraceFunc flags s seq i st1 = Inr (False, st2))
   \<and> (inOutData \<noteq> [] \<and> int k < seqInferencesMaxCount
        \<and> benchmark_sequence env kTraceFunc flags (k mod length inOutData)
             (inOutData ! (k mod length inOutData)) 0 (reset env st1) = Inr (False, st2) \<longrightarrow>
      benchmark_loop env kTraceFunc inOutData seqInferencesMaxCount timeout flags k st1
        = Inr (False, st2))
   \<and> (inOutData \<noteq> [] \<and> inOutData ! 0 \<noteq> [] \<and> 0 < seqInferencesMaxCount
        \<and> ATrace_beginSection kTraceFunc \<noteq> nullptr \<and> input (inOutData ! 0 ! 0) = None
        \<and> (\<forall>buffer. \<not> fst (createInput (inOutData ! 0 ! 0) buffer)
              \<and> length (snd (createInput (inOutData ! 0 ! 0) buffer)) \<le> length buffer) \<longrightarrow>
      (\<exists>st'. benchmark env kTraceFunc inOutData seqInferencesMaxCount timeout flags st
                = Inr (False, st')
         \<and> results st' = results st))"
proof (intro conjI impI)
  assume "type (input_tensor interp) \<noteq> kTfLiteFloat32 \<and> type (input_tensor interp) \<noteq> kTfLiteUInt8"
  then show "setInput interp dataPtr = Inr (False, interp)"
    by (simp add: setInput_unsupported)
next
  assume "input data = Some dataPtr \<and> setInput interp dataPtr = Inr (ok, interp')"
  then show "provide_input data interp = Inr (True, interp')"
    by (simp add: provide_input_raw and_then_def)
next
  assume a: "input data = Some dataPtr
        \<and> benchmark_entry env kTraceFunc flags s i data st1 = Inr (False, st2)"
  then obtain created interp' where
    p: "provide_input data (mTfliteInterpreter st1) = Inr (created, interp')"
    and c: "\<not> created \<or> \<not> fst (runInference env interp')"
    using benchmark_entry_False_cause [of env kTraceFunc flags s i data st1 st2] by blast
  have "and_then (setInput (mTfliteInterpreter st1) dataPtr) (\<lambda>(_, interp). Inr (True, interp))
      = Inr (created, interp')"
    using a p by (simp add: provide_input_raw)
  then obtain ok where "setInput (mTfliteInterpreter st1) dataPtr = Inr (ok, interp')"
    and "created"
    by (auto simp: and_then_Inr)
  then show "\<exists>ok interp'. setInput (mTfliteInterpreter st1) dataPtr = Inr (ok, interp')
         \<and> \<not> fst (runInference env interp')"
    using c by blast
next
  assume a: "ATrace_beginSection kTraceFunc \<noteq> nullptr \<and> input data = None
        \<and> \<not> fst (createInput data (raw (input_tensor (mTfliteInterpreter st1))))
        \<and> length (snd (createInput data (raw (input_tensor (mTfliteInterpreter st1)))))
            \<le> bytes (input_tensor (mTfliteInterpreter st1))"
  then obtain interp' where
    "provide_input data (mTfliteInterpreter st1) = Inr (False, interp')"
    using provide_input_callback_fails [of data "mTfliteInterpreter st1"] by blast
  then have "benchmark_entry env kTraceFunc flags s i data st1
      = Inr (False, st1\<lparr>mTfliteInterpreter := interp'\<rparr>)"
    using a by (intro benchmark_entry_not_created) simp_all
  then show "\<exists>st2. benchmark_entry env kTraceFunc flags s i data st1 = Inr (False, st2)
         \<and> results st2 = results st1"
    by simp
next
  assume "i < length seq
        \<and> benchmark_entry env kTraceFunc flags s i (seq ! i) st1 = Inr (False, st2)"
  then show "benchmark_sequence env kTraceFunc flags s seq i st1 = Inr (False, st2)"
    by (simp add: benchmark_sequence_step)
next
  assume "inOutData \<noteq> [] \<and> int k < seqInferencesMaxCount
        \<and> benchmark_sequence env kTraceFunc flags (k mod length inOutData)
             (inOutData ! (k mod length inOutData)) 0 (reset env st1) = Inr (False, st2)"
  then show "benchmark_loop env kTraceFunc inOutData seqInferencesMaxCount timeout flags k st1
        = Inr (False, st2)"
    by (simp add: benchmark_loop_step)
next
  assume a: "inOutData \<noteq> [] \<and> inOutData ! 0 \<noteq> [] \<and> 0 < seqInferencesMaxCount
        \<and> ATrace_beginSection kTraceFunc \<noteq> nullptr \<and> input (inOutData ! 0 ! 0) = None
        \<and> (\<forall>buffer. \<not> fst (createInput (inOutData ! 0 ! 0) buffer)
              \<and> length (snd (createInput (inOutData ! 0 ! 0) buffer)) \<le> length buffer)"
  define st0 where "st0 = st\<lparr>inferenceTotal := fzero,
      mTfliteInterpreter := snd (resetStates env (mTfliteInterpreter st))\<rparr>"
  have "\<not> fst (createInput (inOutData ! 0 ! 0) (raw (input_tensor (mTfliteInterpreter st0))))"
    "length (snd (createInput (inOutData ! 0 ! 0) (raw (input_tensor (mTfliteInterpreter st0)))))
       \<le> bytes (input_tensor (mTfliteInterpreter st0))"
    using a by (simp_all add: bytes_def)
  then obtain interp' where
    "provide_input (inOutData ! 0 ! 0) (mTfliteInterpreter st0) = Inr (False, interp')"
    using a provide_input_callback_fails [of "inOutData ! 0 ! 0" "mTfliteInterpreter st0"]
    by blast
  then have "benchmark_entry env kTraceFunc flags 0 0 (inOutData ! 0 ! 0) st0
      = Inr (False, st0\<lparr>mTfliteInterpreter := interp'\<rparr>)"
    using a by (intro benchmark_entry_not_created) simp_all
  then have "benchmark env kTraceFunc inOutData seqInferencesMaxCount timeout flags st
      = Inr (False, st0\<lparr>mTfliteInterpreter := interp'\<rparr>)"
    using a unfolding st0_def by (intro benchmark_first_entry_False) simp_all
  moreover have "results (st0\<lparr>mTfliteInterpreter := interp'\<rparr>) = results st"
    by (simp add: st0_def)
  ultimately show "\<exists>st'. benchmark env kTraceFunc inOutData seqInferencesMaxCount timeout flags st
                = Inr (False, st')
         \<and> results st' = results st"
    by blast
qed

text \<open>
  C9 at concrete inputs. On an input tensor of 32-bit integers \<^verbatim>\<open>setInput\<close> returns
  \<^verbatim>\<open>false\<close>, and the run over one entry with raw input still returns \<^verbatim>\<open>true\<close> with
  one result. An entry with raw input on a platform whose inference fails returns
  \<^verbatim>\<open>false\<close> after a \<^verbatim>\<open>setInput\<close> that returned \<^verbatim>\<open>true\<close>. An entry with a failing
  callback returns \<^verbatim>\<open>false\<close>, and so do its sequence, the loop and the run, with no
  result.
\<close>

theorem setInput_result_ignored_witness:
  "setInput (mTfliteInterpreter int32_state) [1] = Inr (False, mTfliteInterpreter int32_state)
   \<and> provide_input (raw_entry 1 1) (mTfliteInterpreter int32_state)
       = Inr (True, mTfliteInterpreter int32_state)
   \<and> (\<exists>st'. benchmark (idle_platform True) resolved_tracing [[raw_entry 1 1]] 1 fzero 3
               int32_state = Inr (True, st')
         \<and> length (appended int32_state st') = 1)
   \<and> (\<exists>interp'. setInput (mTfliteInterpreter byte_state) [2] = Inr (True, interp')
         \<and> \<not> fst (runInference (picky_platform True) interp'))
   \<and> (\<exists>st2. benchmark_entry (idle_platform True) resolved_tracing 3 0 0 (callback_entry False)
               byte_state = Inr (False, st2)
         \<and> results st2 = results byte_state
         \<and> benchmark_sequence (idle_platform True) resolved_tracing 3 0
               [callback_entry False] 0 byte_state = Inr (False, st2)
         \<and> benchmark_loop (idle_platform True) resolved_tracing [[callback_entry False]] 1
               fzero 3 0 byte_state = Inr (False, st2))
   \<and> (\<exists>st'. benchmark (idle_platform True) resolved_tracing [[callback_entry False]] 1 fzero 3
               byte_state = Inr (False, st')
         \<and> results st' = results byte_state)"
proof -
  let ?int32 = "mTfliteInterpreter int32_state"
  let ?idle = "idle_platform True"
  note raw_inst = setInput_result_ignored
    [of ?int32 "[1]" "raw_entry 1 1" False ?int32 "picky_platform True" resolved_tracing
        3 0 0 byte_state]
  note picky_inst = setInput_result_ignored
    [of ?int32 "[2]" "raw_entry 2 2" False ?int32 "picky_platform True" resolved_tracing
        3 0 0 byte_state]
  have unsupported: "setInput ?int32 [1] = Inr (False, ?int32)"
    using raw_inst [THEN conjunct1] by (simp add: int32_state_def)
  then have dropped: "provide_input (raw_entry 1 1) ?int32 = Inr (True, ?int32)"
    using raw_inst [THEN conjunct2, THEN conjunct1] by (simp add: raw_entry_def)
  have goes_on: "\<exists>st'. benchmark ?idle resolved_tracing [[raw_entry 1 1]] 1
        fzero 3 int32_state = Inr (True, st')
      \<and> length (appended int32_state st') = 1"
    by (simp add: run_simps)
  have "\<exists>st2. benchmark_entry (picky_platform True) resolved_tracing 3 0 0 (raw_entry 2 2)
      byte_state = Inr (False, st2)"
    by (simp add: run_simps)
  then have "\<exists>ok interp'. setInput (mTfliteInterpreter byte_state) [2] = Inr (ok, interp')
      \<and> \<not> fst (runInference (picky_platform True) interp')"
    using picky_inst [THEN conjunct2, THEN conjunct2, THEN conjunct1]
    by (auto simp: raw_entry_def)
  then obtain ok interp' where failed: "setInput (mTfliteInterpreter byte_state) [2]
      = Inr (ok, interp')" "\<not> fst (runInference (picky_platform True) interp')"
    by (elim exE conjE)
  have "setInput (mTfliteInterpreter byte_state) [2]
      = Inr (True, \<lparr>input_tensor = uint8_tensor [2], output_tensor = uint8_tensor [9],
                    graph = ()\<rparr>)"
    by (simp add: setInput_def memcpy_def and_then_def byte_state_def Let_def)
  then have inference: "\<exists>interp'. setInput (mTfliteInterpreter byte_state) [2]
        = Inr (True, interp')
      \<and> \<not> fst (runInference (picky_platform True) interp')"
    using failed by simp
  have "\<exists>st2. benchmark_entry ?idle resolved_tracing 3 0 0 (callback_entry False) byte_state
        = Inr (False, st2)
      \<and> results st2 = results byte_state"
    using setInput_result_ignored
      [of ?int32 "[1]" "callback_entry False" False ?int32 ?idle resolved_tracing
          3 0 0 byte_state,
       THEN conjunct2, THEN conjunct2, THEN conjunct2, THEN conjunct1]
    by (simp add: resolved_tracing_def callback_entry_def byte_state_def bytes_def)
  then obtain st2 where entry: "benchmark_entry ?idle resolved_tracing 3 0 0
      (callback_entry False) byte_state = Inr (False, st2)"
    and same: "results st2 = results byte_state"
    by (elim exE conjE)
  note callback_inst = setInput_result_ignored
    [of ?int32 "[1]" "callback_entry False" False ?int32 ?idle resolved_tracing
        3 0 0 byte_state st2 "[callback_entry False]" "[[callback_entry False]]" 0 1 fzero
        byte_state]
  have seq: "benchmark_sequence ?idle resolved_tracing 3 0 [callback_entry False] 0 byte_state
      = Inr (False, st2)"
    using callback_inst [THEN conjunct2, THEN conjunct2, THEN conjunct2, THEN conjunct2,
        THEN conjunct1] entry
    by simp
  have loop: "benchmark_loop ?idle resolved_tracing [[callback_entry False]] 1 fzero 3 0
      byte_state = Inr (False, st2)"
    using callback_inst [THEN conjunct2, THEN conjunct2, THEN conjunct2, THEN conjunct2,
        THEN conjunct2, THEN conjunct1] seq
    by (simp add: reset_idle)
  have aborts: "\<exists>st2. benchmark_entry ?idle resolved_tracing 3 0 0 (callback_entry False)
        byte_state = Inr (False, st2)
      \<and> results st2 = results byte_state
      \<and> benchmark_sequence ?idle resolved_tracing 3 0 [callback_entry False] 0 byte_state
          = Inr (False, st2)
      \<and> benchmark_loop ?idle resolved_tracing [[callback_entry False]] 1 fzero 3 0
          byte_state = Inr (False, st2)"
    by (rule exI [of _ st2], intro conjI) (fact entry same seq loop)+
  have run: "\<exists>st'. benchmark ?idle resolved_tracing [[callback_entry False]] 1
        fzero 3 byte_state = Inr (False, st')
      \<and> results st' = results byte_state"
    using callback_inst [THEN conjunct2, THEN conjunct2, THEN conjunct2, THEN conjunct2,
        THEN conjunct2, THEN conjunct2]
    by (simp add: resolved_tracing_def callback_entry_def)
  show ?thesis
    by (intro conjI) (fact unsupported dropped goes_on inference aborts run)+
qed

text \<open>
  Claim C10. When \<^verbatim>\<open>benchmark\<close> returns \<^verbatim>\<open>false\<close>, the results appended before are
  still in \<^verbatim>\<open>*results\<close> and the failing entry has none: \<^verbatim>\<open>*results\<close> is what it was
  at the call followed by one result for every entry of the steps \<open>0, \<dots>, m - 1\<close> and
  for the first \<open>j\<close> entries of step \<open>m\<close>, where entry \<open>j\<close> of step \<open>m\<close> exists and is
  the one that failed. The body of an entry that returns \<^verbatim>\<open>false\<close> leaves \<^verbatim>\<open>*results\<close>
  untouched, and it returns \<^verbatim>\<open>false\<close> because the inference failed or because the
  entry has no raw input and its callback \<^verbatim>\<open>createInput\<close> failed.
\<close>

theorem benchmark_failure_keeps_results:
  "(benchmark env kTraceFunc inOutData seqInferencesMaxCount timeout flags st
      = Inr (False, st') \<longrightarrow>
      (\<exists>m j. results st' = results st @ appended st st'
         \<and> map tag (appended st st')
             = map (\<lambda>(s, i). (int s, int i))
                 (visited inOutData 0 m @ take j (step_entries inOutData m))
         \<and> int m < seqInferencesMaxCount
         \<and> j < length (inOutData ! (m mod length inOutData))))
   \<and> (benchmark_entry env kTraceFunc flags s i data st1 = Inr (False, st2) \<longrightarrow>
      results st2 = results st1
      \<and> ((\<exists>interp. provide_input data (mTfliteInterpreter st1) = Inr (True, interp)
             \<and> \<not> fst (runInference env interp))
         \<or> (input data = None
            \<and> \<not> fst (createInput data (raw (input_tensor (mTfliteInterpreter st1)))))))"
proof (intro conjI impI)
  assume "benchmark env kTraceFunc inOutData seqInferencesMaxCount timeout flags st
      = Inr (False, st')"
  from benchmark_tags [OF this]
  show "\<exists>m j. results st' = results st @ appended st st'
         \<and> map tag (appended st st')
             = map (\<lambda>(s, i). (int s, int i))
                 (visited inOutData 0 m @ take j (step_entries inOutData m))
         \<and> int m < seqInferencesMaxCount
         \<and> j < length (inOutData ! (m mod length inOutData))"
    by auto
next
  assume a: "benchmark_entry env kTraceFunc flags s i data st1 = Inr (False, st2)"
  then show "results st2 = results st1"
    using benchmark_entry_False by blast
  obtain created interp where
    p: "provide_input data (mTfliteInterpreter st1) = Inr (created, interp)"
    and c: "\<not> created \<or> \<not> fst (runInference env interp)"
    using benchmark_entry_False_cause [OF a] by blast
  show "(\<exists>interp. provide_input data (mTfliteInterpreter st1) = Inr (True, interp)
             \<and> \<not> fst (runInference env interp))
         \<or> (input data = None
            \<and> \<not> fst (createInput data (raw (input_tensor (mTfliteInterpreter st1)))))"
  proof (cases created)
    case True
    then show ?thesis using p c by auto
  next
    case False
    have none: "input data = None"
    proof (cases "input data")
      case (Some dataPtr)
      then have "and_then (setInput (mTfliteInterpreter st1) dataPtr)
          (\<lambda>(_, interp). Inr (True, interp)) = Inr (False, interp)"
        using p False by (simp add: provide_input_raw)
      then show ?thesis by (auto simp: and_then_Inr)
    qed
    then have "created = fst (createInput data (raw (input_tensor (mTfliteInterpreter st1))))"
      using p by (rule provide_input_callback)
    then show ?thesis using none False by simp
  qed
qed

text \<open>
  C10 on a platform whose inference fails on the input byte 2, called with one result
  already in \<^verbatim>\<open>*results\<close>: the run over the entries 1 and 2 returns \<^verbatim>\<open>false\<close>, the
  earlier result and the result of the first entry are there, and there is none for the
  second, whose input was set and whose inference failed.
\<close>

theorem benchmark_failure_keeps_results_witness:
  "(\<exists>st'. benchmark (picky_platform True) resolved_tracing [[raw_entry 1 1, raw_entry 2 2]] 5
            fzero 3 (byte_state\<lparr>results := [blank_result]\<rparr>)
          = Inr (False, st')
       \<and> results st' = blank_result # appended (byte_state\<lparr>results := [blank_result]\<rparr>) st'
       \<and> map tag (appended (byte_state\<lparr>results := [blank_result]\<rparr>) st') = [(0, 0)]
       \<and> (\<exists>m j. map tag (appended (byte_state\<lparr>results := [blank_result]\<rparr>) st')
                 = map (\<lambda>(s, i). (int s, int i))
                     (visited [[raw_entry 1 1, raw_entry 2 2]] 0 m
                      @ take j (step_entries [[raw_entry 1 1, raw_entry 2 2]] m))
             \<and> j < length ([[raw_entry 1 1, raw_entry 2 2]]
                             ! (m mod length [[raw_entry 1 1, raw_entry 2 2]]))))
   \<and> (\<exists>st2. benchmark_entry (picky_platform True) resolved_tracing 3 0 1
               (raw_entry 2 2) (byte_state\<lparr>results := [blank_result]\<rparr>)
             = Inr (False, st2)
         \<and> results st2 = [blank_result])
   \<and> (\<exists>interp. provide_input (raw_entry 2 2) (mTfliteInterpreter byte_state)
                  = Inr (True, interp)
         \<and> \<not> fst (runInference (picky_platform True) interp))"
proof -
  let ?data = "[[raw_entry 1 1, raw_entry 2 2]]"
  let ?env = "picky_platform True"
  let ?st = "byte_state\<lparr>results := [blank_result]\<rparr>"
  have "\<exists>st'. benchmark ?env resolved_tracing ?data 5 fzero 3 ?st = Inr (False, st')
      \<and> map tag (appended ?st st') = [(0, 0)]"
    by (simp add: run_simps)
  then obtain st' where run: "benchmark ?env resolved_tracing ?data 5 fzero 3 ?st
      = Inr (False, st')"
    and tags: "map tag (appended ?st st') = [(0, 0)]"
    by (elim exE conjE)
  have "\<exists>st2. benchmark_entry ?env resolved_tracing 3 0 1 (raw_entry 2 2) ?st
      = Inr (False, st2)"
    by (simp add: run_simps)
  then obtain st2 where entry: "benchmark_entry ?env resolved_tracing 3 0 1 (raw_entry 2 2) ?st
      = Inr (False, st2)"
    by (elim exE)
  note inst = benchmark_failure_keeps_results
    [of ?env resolved_tracing ?data 5 fzero 3 ?st st' 0 1 "raw_entry 2 2" ?st st2]
  have "results st' = results ?st @ appended ?st st'"
    using inst [THEN conjunct1] run by blast
  then have kept: "results st' = blank_result # appended ?st st'"
    by simp
  have shape: "\<exists>m j. map tag (appended ?st st')
                 = map (\<lambda>(s, i). (int s, int i))
                     (visited ?data 0 m @ take j (step_entries ?data m))
             \<and> j < length (?data ! (m mod length ?data))"
    using inst [THEN conjunct1] run by blast
  have whole: "\<exists>st'. benchmark ?env resolved_tracing ?data 5 fzero 3 ?st = Inr (False, st')
       \<and> results st' = blank_result # appended ?st st'
       \<and> map tag (appended ?st st') = [(0, 0)]
       \<and> (\<exists>m j. map tag (appended ?st st')
                 = map (\<lambda>(s, i). (int s, int i))
                     (visited ?data 0 m @ take j (step_entries ?data m))
             \<and> j < length (?data ! (m mod length ?data)))"
    by (rule exI [of _ st'], intro conjI) (fact run kept tags shape)+
  note failing = inst [THEN conjunct2, rule_format, OF entry]
  have "results st2 = results ?st"
    using failing by (rule conjunct1)
  then have none: "\<exists>st2. benchmark_entry ?env resolved_tracing 3 0 1 (raw_entry 2 2) ?st
        = Inr (False, st2)
      \<and> results st2 = [blank_result]"
    using entry by simp
  have "input (raw_entry 2 2) \<noteq> None" by (simp add: raw_entry_def)
  then have "\<exists>interp. provide_input (raw_entry 2 2) (mTfliteInterpreter ?st)
        = Inr (True, interp)
      \<and> \<not> fst (runInference ?env interp)"
    using failing [THEN conjunct2] by auto
  then have cause: "\<exists>interp. provide_input (raw_entry 2 2) (mTfliteInterpreter byte_state)
        = Inr (True, interp)
      \<and> \<not> fst (runInference ?env interp)"
    by simp
  show ?thesis
    by (intro conjI) (fact whole none cause)+
qed

end
